theory Spec2Isabelle
  imports Complex_Main
begin

section \<open>The node field store of the discrete adjoint solver (CDiscAdjVariable.hpp)\<close>

text \<open>
  The class \<open>CDiscAdjVariable\<close> keeps thirteen matrices, each indexed by a node and a
  component, and offers getters, setters and row copies on them. Values of type
  \<open>su2double\<close> are only stored and copied, never computed with, so the value type is
  the type parameter \<open>'d\<close>. Indices of type \<open>Idx_t\<close> are unsigned and only compared
  and incremented below a bound, so they are natural numbers.
\<close>

subsection \<open>Errors\<close>

text \<open>
  \<open>OutOfRange\<close>: an entry or a row of a matrix was addressed outside its shape.
  \<open>ReadPastEnd\<close>: a read \<open>val[i]\<close> through a pointer of the caller went beyond the
  last entry of the vector that the pointer refers to (in C++ this read has no defined
  result).
\<close>

datatype error = OutOfRange | ReadPastEnd

subsection \<open>The matrix type\<close>

text \<open>
  Modelled from the spec: the container type \<open>Mat_t\<close> and its element access
  \<open>m(i,j)\<close> and row access \<open>m[i]\<close> are declared in CVariable.hpp and the container
  headers, which are not part of the sources at hand. The specification describes a
  fixed-shape two-dimensional array keyed by (node index, component index) whose
  \<open>get\<close> and \<open>set\<close> are bounds-checked against the number of rows and against
  the declared width, and which fail on an index outside that range. A matrix is the
  list of its rows.
\<close>

type_synonym 'd Mat_t = "'d list list"

text \<open>Modelled from the spec: reading \<open>m(i,j)\<close>, bounds-checked.\<close>

definition mat_get :: "'d Mat_t \<Rightarrow> nat \<Rightarrow> nat \<Rightarrow> error + 'd" where
  "mat_get m i j =
     (if i < length m \<and> j < length (m ! i) then Inr (m ! i ! j) else Inl OutOfRange)"

text \<open>Modelled from the spec: the assignment \<open>m(i,j) = v\<close>, bounds-checked.\<close>

definition mat_set :: "'d Mat_t \<Rightarrow> nat \<Rightarrow> nat \<Rightarrow> 'd \<Rightarrow> error + 'd Mat_t" where
  "mat_set m i j v =
     (if i < length m \<and> j < length (m ! i) then Inr (m[i := (m ! i)[j := v]])
      else Inl OutOfRange)"

text \<open>
  Modelled from the spec: the row access \<open>m[i]\<close>, bounds-checked. The C++ returns a
  pointer to the row; the model returns the values of the row at the time of the call.
\<close>

definition mat_row :: "'d Mat_t \<Rightarrow> nat \<Rightarrow> error + 'd list" where
  "mat_row m i = (if i < length m then Inr (m ! i) else Inl OutOfRange)"

text \<open>
  A matrix of \<open>n\<close> rows of width \<open>w\<close>.
\<close>

definition has_shape :: "'d Mat_t \<Rightarrow> nat \<Rightarrow> nat \<Rightarrow> bool" where
  "has_shape m n w = (length m = n \<and> list_all (\<lambda>r. length r = w) m)"

subsection \<open>Reading through a pointer to a vector\<close>

text \<open>
  The batched setters take \<open>const su2double *val\<close> and read \<open>val[i]\<close>. The list
  \<open>val\<close> holds the entries of the vector the pointer refers to. The pointer carries no
  length, and the C++ has no check; a read beyond the vector is the error
  \<open>ReadPastEnd\<close> of the model.
\<close>

definition ptr_read :: "'d list \<Rightarrow> nat \<Rightarrow> error + 'd" where
  "ptr_read val i = (if i < length val then Inr (val ! i) else Inl ReadPastEnd)"

subsection \<open>The two loops of the class\<close>

text \<open>
  \<^verbatim>\<open>for (Idx_t i = 0; i < n; i++) dst(iPoint,i) = val[i];\<close>
  is the loop of \<open>SetSolution_Direct\<close>, \<open>SetGeometry_Direct\<close> and the batched
  \<open>SetSolution_Geometry\<close>. The function below is the loop from counter \<open>i\<close> on; the
  right-hand side of the assignment is evaluated before the left-hand side.
\<close>

function set_row_loop ::
  "'d Mat_t \<Rightarrow> nat \<Rightarrow> 'd list \<Rightarrow> nat \<Rightarrow> nat \<Rightarrow> error + 'd Mat_t" where
  "set_row_loop dst iPoint val i n =
     (if i < n then
        (case ptr_read val i of
           Inl e \<Rightarrow> Inl e
         | Inr v \<Rightarrow>
             (case mat_set dst iPoint i v of
                Inl e \<Rightarrow> Inl e
              | Inr dst' \<Rightarrow> set_row_loop dst' iPoint val (Suc i) n))
      else Inr dst)"
  by pat_completeness auto
termination
  by (relation "measure (\<lambda>(dst, iPoint, val, i, n). n - i)") auto

text \<open>
  \<^verbatim>\<open>for (Idx_t i = 0; i < n; i++) dst(iPoint,i) = src(iPoint,i);\<close>
  is the loop of \<open>Set_OldSolution_Geometry\<close>, \<open>Set_BGSSolution_k\<close> and
  \<open>Set_BGSSolution_Geometry\<close>. In each of them \<open>dst\<close> and \<open>src\<close> are two different
  members of the class, so the loop never changes the matrix it reads.
\<close>

function copy_row_loop ::
  "'d Mat_t \<Rightarrow> 'd Mat_t \<Rightarrow> nat \<Rightarrow> nat \<Rightarrow> nat \<Rightarrow> error + 'd Mat_t" where
  "copy_row_loop dst src iPoint i n =
     (if i < n then
        (case mat_get src iPoint i of
           Inl e \<Rightarrow> Inl e
         | Inr v \<Rightarrow>
             (case mat_set dst iPoint i v of
                Inl e \<Rightarrow> Inl e
              | Inr dst' \<Rightarrow> copy_row_loop dst' src iPoint (Suc i) n))
      else Inr dst)"
  by pat_completeness auto
termination
  by (relation "measure (\<lambda>(dst, src, iPoint, i, n). n - i)") auto

declare set_row_loop.simps [simp del]
declare copy_row_loop.simps [simp del]

subsection \<open>The class\<close>

text \<open>
  The thirteen private members of \<open>CDiscAdjVariable\<close>, in the order of their
  declaration, after the three sizes \<open>nPoint\<close>, \<open>nDim\<close> and \<open>nVar\<close> that the class
  inherits from \<open>CVariable\<close>.
\<close>

record 'd CDiscAdjVariable =
  nPoint :: nat
  nDim :: nat
  nVar :: nat
  Sensitivity :: "'d Mat_t"
  Solution_Direct :: "'d Mat_t"
  DualTime_Derivative :: "'d Mat_t"
  DualTime_Derivative_n :: "'d Mat_t"
  Cross_Term_Derivative :: "'d Mat_t"
  Geometry_CrossTerm_Derivative :: "'d Mat_t"
  Geometry_CrossTerm_Derivative_Flow :: "'d Mat_t"
  Solution_Geometry :: "'d Mat_t"
  Solution_Geometry_Old :: "'d Mat_t"
  Geometry_Direct :: "'d Mat_t"
  Solution_BGS :: "'d Mat_t"
  Solution_BGS_k :: "'d Mat_t"
  Solution_Geometry_BGS_k :: "'d Mat_t"

text \<open>
  A method that assigns to a member returns the object with that member replaced, or the
  error of the failed access.
\<close>

definition store :: "(error + 'm) \<Rightarrow> ('m \<Rightarrow> 's) \<Rightarrow> error + 's" where
  "store r upd = (case r of Inl e \<Rightarrow> Inl e | Inr m \<Rightarrow> Inr (upd m))"

definition SetSensitivity ::
  "'d CDiscAdjVariable \<Rightarrow> nat \<Rightarrow> nat \<Rightarrow> 'd \<Rightarrow> error + 'd CDiscAdjVariable" where
  "SetSensitivity s iPoint iDim val =
     store (mat_set (Sensitivity s) iPoint iDim val) (\<lambda>m. s\<lparr>Sensitivity := m\<rparr>)"

definition GetSensitivity :: "'d CDiscAdjVariable \<Rightarrow> nat \<Rightarrow> nat \<Rightarrow> error + 'd" where
  "GetSensitivity s iPoint iDim = mat_get (Sensitivity s) iPoint iDim"

definition SetDual_Time_Derivative ::
  "'d CDiscAdjVariable \<Rightarrow> nat \<Rightarrow> nat \<Rightarrow> 'd \<Rightarrow> error + 'd CDiscAdjVariable" where
  "SetDual_Time_Derivative s iPoint iVar der =
     store (mat_set (DualTime_Derivative s) iPoint iVar der)
       (\<lambda>m. s\<lparr>DualTime_Derivative := m\<rparr>)"

definition SetDual_Time_Derivative_n ::
  "'d CDiscAdjVariable \<Rightarrow> nat \<Rightarrow> nat \<Rightarrow> 'd \<Rightarrow> error + 'd CDiscAdjVariable" where
  "SetDual_Time_Derivative_n s iPoint iVar der =
     store (mat_set (DualTime_Derivative_n s) iPoint iVar der)
       (\<lambda>m. s\<lparr>DualTime_Derivative_n := m\<rparr>)"

definition GetDual_Time_Derivative ::
  "'d CDiscAdjVariable \<Rightarrow> nat \<Rightarrow> nat \<Rightarrow> error + 'd" where
  "GetDual_Time_Derivative s iPoint iVar = mat_get (DualTime_Derivative s) iPoint iVar"

definition GetDual_Time_Derivative_n ::
  "'d CDiscAdjVariable \<Rightarrow> nat \<Rightarrow> nat \<Rightarrow> error + 'd" where
  "GetDual_Time_Derivative_n s iPoint iVar = mat_get (DualTime_Derivative_n s) iPoint iVar"

definition SetSolution_Direct ::
  "'d CDiscAdjVariable \<Rightarrow> nat \<Rightarrow> 'd list \<Rightarrow> error + 'd CDiscAdjVariable" where
  "SetSolution_Direct s iPoint val_solution_direct =
     store (set_row_loop (Solution_Direct s) iPoint val_solution_direct 0 (nVar s))
       (\<lambda>m. s\<lparr>Solution_Direct := m\<rparr>)"

definition GetSolution_Direct :: "'d CDiscAdjVariable \<Rightarrow> nat \<Rightarrow> error + 'd list" where
  "GetSolution_Direct s iPoint = mat_row (Solution_Direct s) iPoint"

definition SetGeometry_Direct ::
  "'d CDiscAdjVariable \<Rightarrow> nat \<Rightarrow> 'd list \<Rightarrow> error + 'd CDiscAdjVariable" where
  "SetGeometry_Direct s iPoint val_geometry_direct =
     store (set_row_loop (Geometry_Direct s) iPoint val_geometry_direct 0 (nDim s))
       (\<lambda>m. s\<lparr>Geometry_Direct := m\<rparr>)"

text \<open>The overload \<open>GetGeometry_Direct(iPoint)\<close>, which returns the row.\<close>

definition GetGeometry_Direct_row :: "'d CDiscAdjVariable \<Rightarrow> nat \<Rightarrow> error + 'd list" where
  "GetGeometry_Direct_row s iPoint = mat_row (Geometry_Direct s) iPoint"

text \<open>The overload \<open>GetGeometry_Direct(iPoint, iDim)\<close>.\<close>

definition GetGeometry_Direct :: "'d CDiscAdjVariable \<Rightarrow> nat \<Rightarrow> nat \<Rightarrow> error + 'd" where
  "GetGeometry_Direct s iPoint iDim = mat_get (Geometry_Direct s) iPoint iDim"

definition GetSolution_Geometry :: "'d CDiscAdjVariable \<Rightarrow> nat \<Rightarrow> nat \<Rightarrow> error + 'd" where
  "GetSolution_Geometry s iPoint iDim = mat_get (Solution_Geometry s) iPoint iDim"

text \<open>The overload \<open>SetSolution_Geometry(iPoint, val_solution_geometry)\<close> with a vector.\<close>

definition SetSolution_Geometry_vec ::
  "'d CDiscAdjVariable \<Rightarrow> nat \<Rightarrow> 'd list \<Rightarrow> error + 'd CDiscAdjVariable" where
  "SetSolution_Geometry_vec s iPoint val_solution_geometry =
     store (set_row_loop (Solution_Geometry s) iPoint val_solution_geometry 0 (nDim s))
       (\<lambda>m. s\<lparr>Solution_Geometry := m\<rparr>)"

text \<open>The overload \<open>SetSolution_Geometry(iPoint, iVar, val_solution_geometry)\<close>.\<close>

definition SetSolution_Geometry ::
  "'d CDiscAdjVariable \<Rightarrow> nat \<Rightarrow> nat \<Rightarrow> 'd \<Rightarrow> error + 'd CDiscAdjVariable" where
  "SetSolution_Geometry s iPoint iVar val_solution_geometry =
     store (mat_set (Solution_Geometry s) iPoint iVar val_solution_geometry)
       (\<lambda>m. s\<lparr>Solution_Geometry := m\<rparr>)"

definition GetGeometry_CrossTerm_Derivative ::
  "'d CDiscAdjVariable \<Rightarrow> nat \<Rightarrow> nat \<Rightarrow> error + 'd" where
  "GetGeometry_CrossTerm_Derivative s iPoint iVar =
     mat_get (Geometry_CrossTerm_Derivative s) iPoint iVar"

definition SetGeometry_CrossTerm_Derivative ::
  "'d CDiscAdjVariable \<Rightarrow> nat \<Rightarrow> nat \<Rightarrow> 'd \<Rightarrow> error + 'd CDiscAdjVariable" where
  "SetGeometry_CrossTerm_Derivative s iPoint iDim der =
     store (mat_set (Geometry_CrossTerm_Derivative s) iPoint iDim der)
       (\<lambda>m. s\<lparr>Geometry_CrossTerm_Derivative := m\<rparr>)"

definition GetGeometry_CrossTerm_Derivative_Flow ::
  "'d CDiscAdjVariable \<Rightarrow> nat \<Rightarrow> nat \<Rightarrow> error + 'd" where
  "GetGeometry_CrossTerm_Derivative_Flow s iPoint iVar =
     mat_get (Geometry_CrossTerm_Derivative_Flow s) iPoint iVar"

definition SetGeometry_CrossTerm_Derivative_Flow ::
  "'d CDiscAdjVariable \<Rightarrow> nat \<Rightarrow> nat \<Rightarrow> 'd \<Rightarrow> error + 'd CDiscAdjVariable" where
  "SetGeometry_CrossTerm_Derivative_Flow s iPoint iDim der =
     store (mat_set (Geometry_CrossTerm_Derivative_Flow s) iPoint iDim der)
       (\<lambda>m. s\<lparr>Geometry_CrossTerm_Derivative_Flow := m\<rparr>)"

definition Set_OldSolution_Geometry ::
  "'d CDiscAdjVariable \<Rightarrow> nat \<Rightarrow> error + 'd CDiscAdjVariable" where
  "Set_OldSolution_Geometry s iPoint =
     store (copy_row_loop (Solution_Geometry_Old s) (Solution_Geometry s) iPoint 0 (nDim s))
       (\<lambda>m. s\<lparr>Solution_Geometry_Old := m\<rparr>)"

definition Get_OldSolution_Geometry ::
  "'d CDiscAdjVariable \<Rightarrow> nat \<Rightarrow> nat \<Rightarrow> error + 'd" where
  "Get_OldSolution_Geometry s iPoint iDim = mat_get (Solution_Geometry_Old s) iPoint iDim"

definition Set_BGSSolution ::
  "'d CDiscAdjVariable \<Rightarrow> nat \<Rightarrow> nat \<Rightarrow> 'd \<Rightarrow> error + 'd CDiscAdjVariable" where
  "Set_BGSSolution s iPoint iDim val_solution =
     store (mat_set (Solution_BGS s) iPoint iDim val_solution)
       (\<lambda>m. s\<lparr>Solution_BGS := m\<rparr>)"

definition Set_BGSSolution_k ::
  "'d CDiscAdjVariable \<Rightarrow> nat \<Rightarrow> error + 'd CDiscAdjVariable" where
  "Set_BGSSolution_k s iPoint =
     store (copy_row_loop (Solution_BGS_k s) (Solution_BGS s) iPoint 0 (nVar s))
       (\<lambda>m. s\<lparr>Solution_BGS_k := m\<rparr>)"

definition Get_BGSSolution :: "'d CDiscAdjVariable \<Rightarrow> nat \<Rightarrow> nat \<Rightarrow> error + 'd" where
  "Get_BGSSolution s iPoint iDim = mat_get (Solution_BGS s) iPoint iDim"

definition Get_BGSSolution_k :: "'d CDiscAdjVariable \<Rightarrow> nat \<Rightarrow> nat \<Rightarrow> error + 'd" where
  "Get_BGSSolution_k s iPoint iDim = mat_get (Solution_BGS_k s) iPoint iDim"

definition Set_BGSSolution_Geometry ::
  "'d CDiscAdjVariable \<Rightarrow> nat \<Rightarrow> error + 'd CDiscAdjVariable" where
  "Set_BGSSolution_Geometry s iPoint =
     store (copy_row_loop (Solution_Geometry_BGS_k s) (Solution_Geometry s) iPoint 0 (nDim s))
       (\<lambda>m. s\<lparr>Solution_Geometry_BGS_k := m\<rparr>)"

definition Get_BGSSolution_Geometry ::
  "'d CDiscAdjVariable \<Rightarrow> nat \<Rightarrow> nat \<Rightarrow> error + 'd" where
  "Get_BGSSolution_Geometry s iPoint iDim = mat_get (Solution_Geometry_BGS_k s) iPoint iDim"

definition SetCross_Term_Derivative ::
  "'d CDiscAdjVariable \<Rightarrow> nat \<Rightarrow> nat \<Rightarrow> 'd \<Rightarrow> error + 'd CDiscAdjVariable" where
  "SetCross_Term_Derivative s iPoint iVar der =
     store (mat_set (Cross_Term_Derivative s) iPoint iVar der)
       (\<lambda>m. s\<lparr>Cross_Term_Derivative := m\<rparr>)"

definition GetCross_Term_Derivative ::
  "'d CDiscAdjVariable \<Rightarrow> nat \<Rightarrow> nat \<Rightarrow> error + 'd" where
  "GetCross_Term_Derivative s iPoint iVar = mat_get (Cross_Term_Derivative s) iPoint iVar"

subsection \<open>The members by name, and their shapes\<close>

datatype field =
    F_Sensitivity
  | F_Solution_Direct
  | F_DualTime_Derivative
  | F_DualTime_Derivative_n
  | F_Cross_Term_Derivative
  | F_Geometry_CrossTerm_Derivative
  | F_Geometry_CrossTerm_Derivative_Flow
  | F_Solution_Geometry
  | F_Solution_Geometry_Old
  | F_Geometry_Direct
  | F_Solution_BGS
  | F_Solution_BGS_k
  | F_Solution_Geometry_BGS_k

definition all_fields :: "field list" where
  "all_fields =
     [F_Sensitivity, F_Solution_Direct, F_DualTime_Derivative, F_DualTime_Derivative_n,
      F_Cross_Term_Derivative, F_Geometry_CrossTerm_Derivative,
      F_Geometry_CrossTerm_Derivative_Flow, F_Solution_Geometry, F_Solution_Geometry_Old,
      F_Geometry_Direct, F_Solution_BGS, F_Solution_BGS_k, F_Solution_Geometry_BGS_k]"

fun member_of :: "field \<Rightarrow> 'd CDiscAdjVariable \<Rightarrow> 'd Mat_t" where
  "member_of F_Sensitivity s = Sensitivity s"
| "member_of F_Solution_Direct s = Solution_Direct s"
| "member_of F_DualTime_Derivative s = DualTime_Derivative s"
| "member_of F_DualTime_Derivative_n s = DualTime_Derivative_n s"
| "member_of F_Cross_Term_Derivative s = Cross_Term_Derivative s"
| "member_of F_Geometry_CrossTerm_Derivative s = Geometry_CrossTerm_Derivative s"
| "member_of F_Geometry_CrossTerm_Derivative_Flow s = Geometry_CrossTerm_Derivative_Flow s"
| "member_of F_Solution_Geometry s = Solution_Geometry s"
| "member_of F_Solution_Geometry_Old s = Solution_Geometry_Old s"
| "member_of F_Geometry_Direct s = Geometry_Direct s"
| "member_of F_Solution_BGS s = Solution_BGS s"
| "member_of F_Solution_BGS_k s = Solution_BGS_k s"
| "member_of F_Solution_Geometry_BGS_k s = Solution_Geometry_BGS_k s"

text \<open>
  The axis of a member: \<open>True\<close> for a member with one column per solved variable
  (the loops over it run to \<open>nVar\<close>), \<open>False\<close> for a member with one column per
  space dimension (the loops over it run to \<open>nDim\<close>). Members without a loop follow the
  data model of the specification.
\<close>

fun per_variable :: "field \<Rightarrow> bool" where
  "per_variable F_Sensitivity = False"
| "per_variable F_Solution_Direct = True"
| "per_variable F_DualTime_Derivative = True"
| "per_variable F_DualTime_Derivative_n = True"
| "per_variable F_Cross_Term_Derivative = True"
| "per_variable F_Geometry_CrossTerm_Derivative = False"
| "per_variable F_Geometry_CrossTerm_Derivative_Flow = False"
| "per_variable F_Solution_Geometry = False"
| "per_variable F_Solution_Geometry_Old = False"
| "per_variable F_Geometry_Direct = False"
| "per_variable F_Solution_BGS = True"
| "per_variable F_Solution_BGS_k = True"
| "per_variable F_Solution_Geometry_BGS_k = False"

definition width :: "field \<Rightarrow> nat \<Rightarrow> nat \<Rightarrow> nat" where
  "width f ndim nvar = (if per_variable f then nvar else ndim)"

text \<open>
  The shape invariant of the data model: every member has \<open>nPoint\<close> rows, each of the
  width of its axis.
\<close>

definition shape_ok :: "'d CDiscAdjVariable \<Rightarrow> bool" where
  "shape_ok s =
     list_all (\<lambda>f. has_shape (member_of f s) (nPoint s) (width f (nDim s) (nVar s))) all_fields"

subsection \<open>The constructor\<close>

text \<open>
  Modelled from the spec: the class \<open>CConfig\<close> is not part of the sources at hand.
  By the specification the configuration supplies sizing and the initialization policy,
  and every member starts from the initial value that the caller supplies or from zero.
  The configuration is modelled as far as the constructor uses it: the policy of every
  member.
\<close>

datatype init_policy = InitialValue | Zero

type_synonym CConfig = "field \<Rightarrow> init_policy"

text \<open>
  Modelled from the spec: the value that a member holds in column \<open>j\<close> of every row
  after construction, the entry \<open>sol[j]\<close> of the initial vector or zero.
\<close>

definition baseline :: "CConfig \<Rightarrow> 'd::zero list \<Rightarrow> field \<Rightarrow> nat \<Rightarrow> 'd" where
  "baseline config sol f j = (case config f of InitialValue \<Rightarrow> sol ! j | Zero \<Rightarrow> 0)"

definition baseline_row :: "CConfig \<Rightarrow> 'd::zero list \<Rightarrow> field \<Rightarrow> nat \<Rightarrow> 'd list" where
  "baseline_row config sol f w = map (baseline config sol f) [0..<w]"

text \<open>
  Modelled from the spec: the body of the constructor
  \<open>CDiscAdjVariable(sol, npoint, ndim, nvar, config)\<close> is in CDiscAdjVariable.cpp, which
  is not part of the sources at hand. By the specification every member gets exactly
  \<open>npoint\<close> rows of the width of its axis, filled with the initial value or with zero.
  \<open>sol\<close> is a pointer like the argument of a batched setter: a member that starts from
  the initial value reads \<open>sol[j]\<close> for every column \<open>j\<close>, and the constructor fails
  when that read is beyond the vector.
\<close>

definition CDiscAdjVariable ::
  "'d::zero list \<Rightarrow> nat \<Rightarrow> nat \<Rightarrow> nat \<Rightarrow> CConfig \<Rightarrow> error + 'd CDiscAdjVariable" where
  "CDiscAdjVariable sol npoint ndim nvar config =
     (if list_all (\<lambda>f. config f = InitialValue \<longrightarrow> width f ndim nvar \<le> length sol) all_fields
      then
        (let init = (\<lambda>f. replicate npoint (baseline_row config sol f (width f ndim nvar)))
         in Inr \<lparr> nPoint = npoint, nDim = ndim, nVar = nvar,
                  Sensitivity = init F_Sensitivity,
                  Solution_Direct = init F_Solution_Direct,
                  DualTime_Derivative = init F_DualTime_Derivative,
                  DualTime_Derivative_n = init F_DualTime_Derivative_n,
                  Cross_Term_Derivative = init F_Cross_Term_Derivative,
                  Geometry_CrossTerm_Derivative = init F_Geometry_CrossTerm_Derivative,
                  Geometry_CrossTerm_Derivative_Flow = init F_Geometry_CrossTerm_Derivative_Flow,
                  Solution_Geometry = init F_Solution_Geometry,
                  Solution_Geometry_Old = init F_Solution_Geometry_Old,
                  Geometry_Direct = init F_Geometry_Direct,
                  Solution_BGS = init F_Solution_BGS,
                  Solution_BGS_k = init F_Solution_BGS_k,
                  Solution_Geometry_BGS_k = init F_Solution_Geometry_BGS_k \<rparr>)
      else Inl ReadPastEnd)"

subsection \<open>Calls of the mutating methods\<close>

text \<open>
  One constructor for each method of the class that writes a member, with the arguments
  of the call; \<open>exec\<close> makes the call, \<open>run\<close> makes a sequence of calls and stops at
  the first failure.
\<close>

datatype 'd call =
    Call_SetSensitivity nat nat 'd
  | Call_SetDual_Time_Derivative nat nat 'd
  | Call_SetDual_Time_Derivative_n nat nat 'd
  | Call_SetSolution_Direct nat "'d list"
  | Call_SetGeometry_Direct nat "'d list"
  | Call_SetSolution_Geometry_vec nat "'d list"
  | Call_SetSolution_Geometry nat nat 'd
  | Call_SetGeometry_CrossTerm_Derivative nat nat 'd
  | Call_SetGeometry_CrossTerm_Derivative_Flow nat nat 'd
  | Call_Set_OldSolution_Geometry nat
  | Call_Set_BGSSolution nat nat 'd
  | Call_Set_BGSSolution_k nat
  | Call_Set_BGSSolution_Geometry nat
  | Call_SetCross_Term_Derivative nat nat 'd

fun exec :: "'d CDiscAdjVariable \<Rightarrow> 'd call \<Rightarrow> error + 'd CDiscAdjVariable" where
  "exec s (Call_SetSensitivity i j v) = SetSensitivity s i j v"
| "exec s (Call_SetDual_Time_Derivative i j v) = SetDual_Time_Derivative s i j v"
| "exec s (Call_SetDual_Time_Derivative_n i j v) = SetDual_Time_Derivative_n s i j v"
| "exec s (Call_SetSolution_Direct i val) = SetSolution_Direct s i val"
| "exec s (Call_SetGeometry_Direct i val) = SetGeometry_Direct s i val"
| "exec s (Call_SetSolution_Geometry_vec i val) = SetSolution_Geometry_vec s i val"
| "exec s (Call_SetSolution_Geometry i j v) = SetSolution_Geometry s i j v"
| "exec s (Call_SetGeometry_CrossTerm_Derivative i j v) = SetGeometry_CrossTerm_Derivative s i j v"
| "exec s (Call_SetGeometry_CrossTerm_Derivative_Flow i j v) =
     SetGeometry_CrossTerm_Derivative_Flow s i j v"
| "exec s (Call_Set_OldSolution_Geometry i) = Set_OldSolution_Geometry s i"
| "exec s (Call_Set_BGSSolution i j v) = Set_BGSSolution s i j v"
| "exec s (Call_Set_BGSSolution_k i) = Set_BGSSolution_k s i"
| "exec s (Call_Set_BGSSolution_Geometry i) = Set_BGSSolution_Geometry s i"
| "exec s (Call_SetCross_Term_Derivative i j v) = SetCross_Term_Derivative s i j v"

text \<open>The node index \<open>iPoint\<close> of a call, and the member that the call assigns to.\<close>

fun call_node :: "'d call \<Rightarrow> nat" where
  "call_node (Call_SetSensitivity i j v) = i"
| "call_node (Call_SetDual_Time_Derivative i j v) = i"
| "call_node (Call_SetDual_Time_Derivative_n i j v) = i"
| "call_node (Call_SetSolution_Direct i val) = i"
| "call_node (Call_SetGeometry_Direct i val) = i"
| "call_node (Call_SetSolution_Geometry_vec i val) = i"
| "call_node (Call_SetSolution_Geometry i j v) = i"
| "call_node (Call_SetGeometry_CrossTerm_Derivative i j v) = i"
| "call_node (Call_SetGeometry_CrossTerm_Derivative_Flow i j v) = i"
| "call_node (Call_Set_OldSolution_Geometry i) = i"
| "call_node (Call_Set_BGSSolution i j v) = i"
| "call_node (Call_Set_BGSSolution_k i) = i"
| "call_node (Call_Set_BGSSolution_Geometry i) = i"
| "call_node (Call_SetCross_Term_Derivative i j v) = i"

fun call_target :: "'d call \<Rightarrow> field" where
  "call_target (Call_SetSensitivity i j v) = F_Sensitivity"
| "call_target (Call_SetDual_Time_Derivative i j v) = F_DualTime_Derivative"
| "call_target (Call_SetDual_Time_Derivative_n i j v) = F_DualTime_Derivative_n"
| "call_target (Call_SetSolution_Direct i val) = F_Solution_Direct"
| "call_target (Call_SetGeometry_Direct i val) = F_Geometry_Direct"
| "call_target (Call_SetSolution_Geometry_vec i val) = F_Solution_Geometry"
| "call_target (Call_SetSolution_Geometry i j v) = F_Solution_Geometry"
| "call_target (Call_SetGeometry_CrossTerm_Derivative i j v) = F_Geometry_CrossTerm_Derivative"
| "call_target (Call_SetGeometry_CrossTerm_Derivative_Flow i j v) =
     F_Geometry_CrossTerm_Derivative_Flow"
| "call_target (Call_Set_OldSolution_Geometry i) = F_Solution_Geometry_Old"
| "call_target (Call_Set_BGSSolution i j v) = F_Solution_BGS"
| "call_target (Call_Set_BGSSolution_k i) = F_Solution_BGS_k"
| "call_target (Call_Set_BGSSolution_Geometry i) = F_Solution_Geometry_BGS_k"
| "call_target (Call_SetCross_Term_Derivative i j v) = F_Cross_Term_Derivative"

fun run :: "'d CDiscAdjVariable \<Rightarrow> 'd call list \<Rightarrow> error + 'd CDiscAdjVariable" where
  "run s [] = Inr s"
| "run s (c # cs) = (case exec s c of Inl e \<Rightarrow> Inl e | Inr s' \<Rightarrow> run s' cs)"

subsection \<open>Example stores\<close>

text \<open>
  A store with one node, two dimensions and three variables whose current BGS solution
  is \<open>[1, 2, 3]\<close>, and a store with two nodes whose entries are all different within
  a member.
\<close>

definition store_1_2_3 :: "real CDiscAdjVariable" where
  "store_1_2_3 =
     \<lparr> nPoint = 1, nDim = 2, nVar = 3,
       Sensitivity = [[0, 0]],
       Solution_Direct = [[0, 0, 0]],
       DualTime_Derivative = [[0, 0, 0]],
       DualTime_Derivative_n = [[0, 0, 0]],
       Cross_Term_Derivative = [[0, 0, 0]],
       Geometry_CrossTerm_Derivative = [[0, 0]],
       Geometry_CrossTerm_Derivative_Flow = [[0, 0]],
       Solution_Geometry = [[0, 0]],
       Solution_Geometry_Old = [[0, 0]],
       Geometry_Direct = [[0, 0]],
       Solution_BGS = [[1, 2, 3]],
       Solution_BGS_k = [[0, 0, 0]],
       Solution_Geometry_BGS_k = [[0, 0]] \<rparr>"

definition two_nodes :: "real CDiscAdjVariable" where
  "two_nodes =
     \<lparr> nPoint = 2, nDim = 2, nVar = 3,
       Sensitivity = [[1, 2], [3, 4]],
       Solution_Direct = [[1, 2, 3], [4, 5, 6]],
       DualTime_Derivative = [[10, 20, 30], [40, 50, 60]],
       DualTime_Derivative_n = [[11, 21, 31], [41, 51, 61]],
       Cross_Term_Derivative = [[1, 2, 3], [4, 5, 6]],
       Geometry_CrossTerm_Derivative = [[1, 2], [3, 4]],
       Geometry_CrossTerm_Derivative_Flow = [[1, 2], [3, 4]],
       Solution_Geometry = [[12, 22], [32, 42]],
       Solution_Geometry_Old = [[13, 23], [33, 43]],
       Geometry_Direct = [[1, 2], [3, 4]],
       Solution_BGS = [[14, 24, 34], [44, 54, 64]],
       Solution_BGS_k = [[15, 25, 35], [45, 55, 65]],
       Solution_Geometry_BGS_k = [[16, 26], [36, 46]] \<rparr>"

text \<open>
  The store that the constructor returns for two nodes, two dimensions, three variables
  and the initial vector \<open>[1, 2, 3]\<close> under \<open>baseline_only_BGS_k\<close>, the configuration
  that starts \<open>Solution_BGS_k\<close> from the initial vector and every other member from
  zero.
\<close>

definition baseline_only_BGS_k :: CConfig where
  "baseline_only_BGS_k = (\<lambda>f. if f = F_Solution_BGS_k then InitialValue else Zero)"

definition fresh_store :: "real CDiscAdjVariable" where
  "fresh_store =
     \<lparr> nPoint = 2, nDim = 2, nVar = 3,
       Sensitivity = [[0, 0], [0, 0]],
       Solution_Direct = [[0, 0, 0], [0, 0, 0]],
       DualTime_Derivative = [[0, 0, 0], [0, 0, 0]],
       DualTime_Derivative_n = [[0, 0, 0], [0, 0, 0]],
       Cross_Term_Derivative = [[0, 0, 0], [0, 0, 0]],
       Geometry_CrossTerm_Derivative = [[0, 0], [0, 0]],
       Geometry_CrossTerm_Derivative_Flow = [[0, 0], [0, 0]],
       Solution_Geometry = [[0, 0], [0, 0]],
       Solution_Geometry_Old = [[0, 0], [0, 0]],
       Geometry_Direct = [[0, 0], [0, 0]],
       Solution_BGS = [[0, 0, 0], [0, 0, 0]],
       Solution_BGS_k = [[1, 2, 3], [1, 2, 3]],
       Solution_Geometry_BGS_k = [[0, 0], [0, 0]] \<rparr>"

text \<open>
  The store that the constructor returns for one node, two dimensions and no variable:
  the rows of the members with one column per variable are empty.
\<close>

definition no_variables :: "real CDiscAdjVariable" where
  "no_variables =
     \<lparr> nPoint = 1, nDim = 2, nVar = 0,
       Sensitivity = [[0, 0]],
       Solution_Direct = [[]],
       DualTime_Derivative = [[]],
       DualTime_Derivative_n = [[]],
       Cross_Term_Derivative = [[]],
       Geometry_CrossTerm_Derivative = [[0, 0]],
       Geometry_CrossTerm_Derivative_Flow = [[0, 0]],
       Solution_Geometry = [[0, 0]],
       Solution_Geometry_Old = [[0, 0]],
       Geometry_Direct = [[0, 0]],
       Solution_BGS = [[]],
       Solution_BGS_k = [[]],
       Solution_Geometry_BGS_k = [[0, 0]] \<rparr>"

section \<open>Properties of the model\<close>

subsection \<open>Matrix access\<close>

lemma mat_set_Inr_iff:
  "mat_set m i j v = Inr m' \<longleftrightarrow>
     i < length m \<and> j < length (m ! i) \<and> m' = m[i := (m ! i)[j := v]]"
  by (auto simp: mat_set_def)

lemma mat_get_Inr_iff:
  "mat_get m i j = Inr v \<longleftrightarrow> i < length m \<and> j < length (m ! i) \<and> v = m ! i ! j"
  by (auto simp: mat_get_def)

lemma mat_get_after_set:
  assumes "mat_set m i j v = Inr m'"
  shows "mat_get m' i j = Inr v"
  using assms by (auto simp: mat_set_Inr_iff mat_get_def)

lemma mat_set_dims:
  assumes "mat_set m i j v = Inr m'"
  shows "map length m' = map length m"
  using assms by (auto simp: mat_set_Inr_iff map_update list_update_same_conv)

lemma mat_set_other_row:
  assumes "mat_set m i j v = Inr m'" and "k \<noteq> i"
  shows "m' ! k = m ! k"
  using assms by (auto simp: mat_set_Inr_iff)

lemma has_shape_length: "has_shape m n w \<Longrightarrow> length m = n"
  by (simp add: has_shape_def)

lemma has_shape_row: "has_shape m n w \<Longrightarrow> i < n \<Longrightarrow> length (m ! i) = w"
  by (simp add: has_shape_def list_all_length)

lemma has_shape_dims: "has_shape m n w \<longleftrightarrow> map length m = replicate n w"
proof
  assume "has_shape m n w"
  then show "map length m = replicate n w"
    by (intro nth_equalityI) (simp_all add: has_shape_def list_all_length)
next
  assume h: "map length m = replicate n w"
  then have n: "length m = n"
    by (metis length_map length_replicate)
  have "length (m ! i) = w" if "i < length m" for i
  proof -
    have "map length m ! i = replicate n w ! i" using h by simp
    then show ?thesis using that n by simp
  qed
  then show "has_shape m n w"
    using n by (simp add: has_shape_def list_all_length)
qed

lemma mat_get_in_shape:
  "has_shape m n w \<Longrightarrow> i < n \<Longrightarrow> j < w \<Longrightarrow> mat_get m i j = Inr (m ! i ! j)"
  by (simp add: mat_get_def has_shape_length has_shape_row)



lemma mat_set_in_shape:
  "has_shape m n w \<Longrightarrow> i < n \<Longrightarrow> j < w \<Longrightarrow>
     mat_set m i j v = Inr (m[i := (m ! i)[j := v]])"
  by (simp add: mat_set_def has_shape_length has_shape_row)

lemma mat_row_in_shape: "has_shape m n w \<Longrightarrow> i < n \<Longrightarrow> mat_row m i = Inr (m ! i)"
  by (simp add: mat_row_def has_shape_length)


lemma mat_set_then_get_in_shape:
  assumes "has_shape m N w" and "i < N" and "j < w"
  shows "\<exists>m'. mat_set m i j v = Inr m' \<and> mat_get m' i j = Inr v"
  using assms
  by (simp add: mat_set_in_shape mat_get_def has_shape_length has_shape_row)

subsection \<open>The loops in closed form\<close>

text \<open>
  From counter \<open>i\<close> on, the copy loop replaces the columns \<open>i\<close> to \<open>n - 1\<close> of row
  \<open>iPoint\<close> of \<open>dst\<close> by those of \<open>src\<close>, and fails when the row or one of these
  columns is missing in either matrix.
\<close>

lemma copy_row_loop_closed:
  "copy_row_loop dst src iPoint i n =
     (if n \<le> i then Inr dst
      else if iPoint < length dst \<and> iPoint < length src \<and>
              n \<le> length (dst ! iPoint) \<and> n \<le> length (src ! iPoint)
      then Inr (dst[iPoint := take i (dst ! iPoint) @ drop i (take n (src ! iPoint)) @
                              drop n (dst ! iPoint)])
      else Inl OutOfRange)"
proof (induction dst src iPoint i n rule: copy_row_loop.induct)
  case (1 dst src iPoint i n)
  show ?case
  proof (cases "i < n")
    case False
    then show ?thesis by (simp add: copy_row_loop.simps [of dst src iPoint i n])
  next
    case True
    show ?thesis
    proof (cases "iPoint < length dst \<and> iPoint < length src \<and>
                  i < length (dst ! iPoint) \<and> i < length (src ! iPoint)")
      case False
      with True show ?thesis
        by (auto simp: copy_row_loop.simps [of dst src iPoint i n] mat_get_def mat_set_def)
    next
      case ok: True
      let ?d = "dst[iPoint := (dst ! iPoint)[i := src ! iPoint ! i]]"
      have g: "mat_get src iPoint i = Inr (src ! iPoint ! i)"
        using ok by (simp add: mat_get_def)
      have st: "mat_set dst iPoint i (src ! iPoint ! i) = Inr ?d"
        using ok by (simp add: mat_set_def)
      have step: "copy_row_loop dst src iPoint i n = copy_row_loop ?d src iPoint (Suc i) n"
        using True g st by (simp add: copy_row_loop.simps [of dst src iPoint i n])
      note IH = "1.IH" [OF True g st]
      show ?thesis
      proof (cases "n \<le> length (dst ! iPoint) \<and> n \<le> length (src ! iPoint)")
        case False
        then show ?thesis using True ok unfolding step IH by auto
      next
        case len: True
        have a: "take (Suc i) ((dst ! iPoint)[i := src ! iPoint ! i]) =
                 take i (dst ! iPoint) @ [src ! iPoint ! i]"
          using ok by (simp add: take_Suc_conv_app_nth)
        have b: "drop i (take n (src ! iPoint)) =
                 src ! iPoint ! i # drop (Suc i) (take n (src ! iPoint))"
          using True len by (simp add: Cons_nth_drop_Suc [symmetric])
        have c: "drop n ((dst ! iPoint)[i := src ! iPoint ! i]) = drop n (dst ! iPoint)"
          using True by simp
        show ?thesis
        proof (cases "n \<le> Suc i")
          case True
          with \<open>i < n\<close> have "n = Suc i" by simp
          then show ?thesis using ok unfolding step IH
            by (simp add: upd_conv_take_nth_drop take_Suc_conv_app_nth)
        next
          case False
          then show ?thesis using \<open>i < n\<close> ok len unfolding step IH
            by (simp add: a b c)
        qed
      qed
    qed
  qed
qed

text \<open>
  While the vector has an entry for every column that the loop reaches, the batched loop
  is the copy loop from a matrix whose row \<open>iPoint\<close> is the vector.
\<close>

lemma nth_replicate_Suc: "replicate (Suc i) v ! i = v"
  by (rule nth_replicate) simp

lemma set_row_loop_as_copy:
  "n \<le> length val \<Longrightarrow>
     set_row_loop dst iPoint val i n =
     copy_row_loop dst (replicate (Suc iPoint) val) iPoint i n"
proof (induction dst iPoint val i n rule: set_row_loop.induct)
  case (1 dst iPoint val i n)
  show ?case
  proof (cases "i < n")
    case False
    then show ?thesis
      by (simp add: set_row_loop.simps [of dst iPoint val i n]
                    copy_row_loop.simps [of dst _ iPoint i n])
  next
    case True
    then have r: "ptr_read val i = Inr (val ! i)"
      and g: "mat_get (replicate (Suc iPoint) val) iPoint i = Inr (val ! i)"
      using "1.prems"
      by (simp_all add: ptr_read_def mat_get_def nth_replicate_Suc del: replicate.simps)
    show ?thesis
    proof (cases "mat_set dst iPoint i (val ! i)")
      case (Inl e)
      then show ?thesis using True r g
        by (simp add: set_row_loop.simps [of dst iPoint val i n]
                      copy_row_loop.simps [of dst _ iPoint i n])
    next
      case (Inr d)
      then show ?thesis using True r g "1.IH" [OF True r Inr "1.prems"]
        by (simp add: set_row_loop.simps [of dst iPoint val i n]
                      copy_row_loop.simps [of dst _ iPoint i n])
    qed
  qed
qed

lemma set_row_loop_closed:
  assumes "n \<le> length val"
  shows "set_row_loop dst iPoint val i n =
     (if n \<le> i then Inr dst
      else if iPoint < length dst \<and> n \<le> length (dst ! iPoint)
      then Inr (dst[iPoint := take i (dst ! iPoint) @ drop i (take n val) @
                              drop n (dst ! iPoint)])
      else Inl OutOfRange)"
  using assms
  by (simp add: set_row_loop_as_copy copy_row_loop_closed nth_replicate_Suc
           del: replicate.simps)

text \<open>
  A vector with fewer than \<open>n\<close> entries: the loop fails; on a row that has the \<open>n\<close>
  columns it fails at the read \<open>val[length val]\<close>.
\<close>

lemma set_row_loop_short_fails:
  "i < n \<Longrightarrow> length val < n \<Longrightarrow> isl (set_row_loop dst iPoint val i n)"
proof (induction dst iPoint val i n rule: set_row_loop.induct)
  case (1 dst iPoint val i n)
  show ?case
  proof (cases "ptr_read val i")
    case (Inl e)
    then show ?thesis using "1.prems"
      by (simp add: set_row_loop.simps [of dst iPoint val i n])
  next
    case r: (Inr v)
    then have "i < length val" by (simp add: ptr_read_def split: if_splits)
    then have lt: "Suc i < n" using "1.prems" by simp
    show ?thesis
    proof (cases "mat_set dst iPoint i v")
      case (Inl e)
      then show ?thesis using "1.prems" r
        by (simp add: set_row_loop.simps [of dst iPoint val i n])
    next
      case (Inr d)
      then show ?thesis using "1.prems" r "1.IH" [OF "1.prems"(1) r Inr lt "1.prems"(2)]
        by (simp add: set_row_loop.simps [of dst iPoint val i n])
    qed
  qed
qed

lemma set_row_loop_read_past_end:
  "i \<le> length val \<Longrightarrow> length val < n \<Longrightarrow> iPoint < length dst \<Longrightarrow>
     n \<le> length (dst ! iPoint) \<Longrightarrow> set_row_loop dst iPoint val i n = Inl ReadPastEnd"
proof (induction dst iPoint val i n rule: set_row_loop.induct)
  case (1 dst iPoint val i n)
  have lt: "i < n" using "1.prems" by simp
  show ?case
  proof (cases "i < length val")
    case False
    then show ?thesis using lt
      by (simp add: set_row_loop.simps [of dst iPoint val i n] ptr_read_def)
  next
    case True
    let ?d = "dst[iPoint := (dst ! iPoint)[i := val ! i]]"
    have r: "ptr_read val i = Inr (val ! i)" using True by (simp add: ptr_read_def)
    have st: "mat_set dst iPoint i (val ! i) = Inr ?d"
      using "1.prems" lt by (simp add: mat_set_def)
    have "set_row_loop ?d iPoint val (Suc i) n = Inl ReadPastEnd"
      using "1.IH" [OF lt r st] True "1.prems" by simp
    then show ?thesis using lt r st
      by (simp add: set_row_loop.simps [of dst iPoint val i n])
  qed
qed

lemma set_row_loop_Inr_iff:
  "set_row_loop dst iPoint val 0 n = Inr m \<longleftrightarrow>
     (if n = 0 then m = dst
      else iPoint < length dst \<and> n \<le> length (dst ! iPoint) \<and> n \<le> length val \<and>
           m = dst[iPoint := take n val @ drop n (dst ! iPoint)])"
proof (cases "n \<le> length val")
  case True
  then show ?thesis by (auto simp: set_row_loop_closed)
next
  case False
  then have "isl (set_row_loop dst iPoint val 0 n)"
    by (intro set_row_loop_short_fails) simp_all
  then show ?thesis using False by (auto simp: isl_def)
qed

lemma copy_row_loop_Inr_iff:
  "copy_row_loop dst src iPoint 0 n = Inr m \<longleftrightarrow>
     (if n = 0 then m = dst
      else iPoint < length dst \<and> iPoint < length src \<and>
           n \<le> length (dst ! iPoint) \<and> n \<le> length (src ! iPoint) \<and>
           m = dst[iPoint := take n (src ! iPoint) @ drop n (dst ! iPoint)])"
  by (auto simp: copy_row_loop_closed)

lemma copy_row_loop_dims:
  assumes "copy_row_loop dst src iPoint 0 n = Inr m"
  shows "map length m = map length dst"
  using assms
  by (auto simp: copy_row_loop_Inr_iff map_update list_update_same_conv split: if_splits)

lemma copy_row_loop_other_row:
  assumes "copy_row_loop dst src iPoint 0 n = Inr m" and "k \<noteq> iPoint"
  shows "m ! k = dst ! k"
  using assms by (auto simp: copy_row_loop_Inr_iff split: if_splits)

lemma set_row_loop_dims:
  assumes "set_row_loop dst iPoint val 0 n = Inr m"
  shows "map length m = map length dst"
  using assms
  by (auto simp: set_row_loop_Inr_iff map_update list_update_same_conv split: if_splits)

lemma set_row_loop_other_row:
  assumes "set_row_loop dst iPoint val 0 n = Inr m" and "k \<noteq> iPoint"
  shows "m ! k = dst ! k"
  using assms by (auto simp: set_row_loop_Inr_iff split: if_splits)


subsection \<open>The loops on a matrix of a given shape\<close>

lemma copy_row_loop_in_shape:
  assumes "has_shape dst N n" and "has_shape src N n" and "iPoint < N"
  shows "copy_row_loop dst src iPoint 0 n = Inr (dst[iPoint := src ! iPoint])"
proof -
  have l: "iPoint < length dst" "iPoint < length src"
    and r: "length (dst ! iPoint) = n" "length (src ! iPoint) = n"
    using assms by (simp_all add: has_shape_length has_shape_row)
  show ?thesis
  proof (cases "n = 0")
    case True
    then have "dst ! iPoint = src ! iPoint" using r by simp
    then have "dst[iPoint := src ! iPoint] = dst" by (metis list_update_id)
    then show ?thesis using True by (simp add: copy_row_loop_closed)
  next
    case False
    then show ?thesis using l r by (simp add: copy_row_loop_closed)
  qed
qed

lemma set_row_loop_in_shape:
  assumes "has_shape dst N n" and "iPoint < N" and "n \<le> length val"
  shows "set_row_loop dst iPoint val 0 n = Inr (dst[iPoint := take n val])"
proof -
  have l: "iPoint < length dst" and r: "length (dst ! iPoint) = n"
    using assms by (simp_all add: has_shape_length has_shape_row)
  show ?thesis
  proof (cases "n = 0")
    case True
    then have "dst ! iPoint = take n val" using r by simp
    then have "dst[iPoint := take n val] = dst" by (metis list_update_id)
    then show ?thesis using True assms(3) by (simp add: set_row_loop_closed)
  next
    case False
    then show ?thesis using l r assms(3) by (simp add: set_row_loop_closed)
  qed
qed



lemma set_row_loop_short_in_shape:
  assumes "has_shape dst N n" and "iPoint < N" and "length val < n"
  shows "set_row_loop dst iPoint val 0 n = Inl ReadPastEnd"
  using assms
  by (intro set_row_loop_read_past_end) (simp_all add: has_shape_length has_shape_row)

subsection \<open>What a call changes\<close>

lemma store_Inr_iff: "store r upd = Inr s' \<longleftrightarrow> (\<exists>m. r = Inr m \<and> s' = upd m)"
  by (cases r) (auto simp: store_def)

lemma store_Inl_iff: "store r upd = Inl e \<longleftrightarrow> r = Inl e"
  by (cases r) (auto simp: store_def)

lemmas method_defs =
  SetSensitivity_def SetDual_Time_Derivative_def SetDual_Time_Derivative_n_def
  SetSolution_Direct_def SetGeometry_Direct_def SetSolution_Geometry_vec_def
  SetSolution_Geometry_def SetGeometry_CrossTerm_Derivative_def
  SetGeometry_CrossTerm_Derivative_Flow_def Set_OldSolution_Geometry_def
  Set_BGSSolution_def Set_BGSSolution_k_def Set_BGSSolution_Geometry_def
  SetCross_Term_Derivative_def

text \<open>A call changes neither the sizes nor any member other than its target.\<close>

lemma exec_sizes:
  assumes "exec s c = Inr s'"
  shows "nPoint s' = nPoint s \<and> nDim s' = nDim s \<and> nVar s' = nVar s"
  using assms by (cases c) (auto simp: method_defs store_Inr_iff)

lemma exec_other_member:
  assumes "exec s c = Inr s'" and "f \<noteq> call_target c"
  shows "member_of f s' = member_of f s"
  using assms by (cases c; cases f) (auto simp: method_defs store_Inr_iff)

text \<open>In its target, a call keeps the length of every row and changes no other row.\<close>

lemma exec_target_dims:
  assumes "exec s c = Inr s'"
  shows "map length (member_of (call_target c) s') = map length (member_of (call_target c) s)"
  using assms
  by (cases c)
     (auto simp: method_defs store_Inr_iff
           dest: mat_set_dims copy_row_loop_dims set_row_loop_dims)

lemma exec_target_other_row:
  assumes "exec s c = Inr s'" and "k \<noteq> call_node c"
  shows "member_of (call_target c) s' ! k = member_of (call_target c) s ! k"
  using assms
  by (cases c)
     (auto simp: method_defs store_Inr_iff
           dest: mat_set_other_row copy_row_loop_other_row set_row_loop_other_row)

lemma exec_dims:
  assumes "exec s c = Inr s'"
  shows "map length (member_of f s') = map length (member_of f s)"
  using assms exec_target_dims [of s c s'] exec_other_member [of s c s' f]
  by (cases "f = call_target c") simp_all

text \<open>
  A call leaves row \<open>k\<close> of member \<open>f\<close> as it is unless it is a call on node \<open>k\<close>
  with target \<open>f\<close>.
\<close>

lemma exec_keeps_row:
  assumes "exec s c = Inr s'" and "f \<noteq> call_target c \<or> k \<noteq> call_node c"
  shows "member_of f s' ! k = member_of f s ! k"
  using assms exec_target_other_row [of s c s' k] exec_other_member [of s c s' f]
  by (cases "f = call_target c") auto

lemma shape_ok_member:
  "shape_ok s \<Longrightarrow> has_shape (member_of f s) (nPoint s) (width f (nDim s) (nVar s))"
  by (cases f) (simp_all add: shape_ok_def all_fields_def)

lemma shape_okI:
  assumes "\<And>f. has_shape (member_of f s) (nPoint s) (width f (nDim s) (nVar s))"
  shows "shape_ok s"
  using assms by (simp add: shape_ok_def list_all_iff)

lemma exec_shape_ok:
  assumes "exec s c = Inr s'" and "shape_ok s"
  shows "shape_ok s'"
proof (rule shape_okI)
  fix f
  have "map length (member_of f s') = map length (member_of f s)"
    using assms(1) by (rule exec_dims)
  then show "has_shape (member_of f s') (nPoint s') (width f (nDim s') (nVar s'))"
    using shape_ok_member [OF assms(2), of f] exec_sizes [OF assms(1)]
    by (simp add: has_shape_dims)
qed

lemma run_shape_ok:
  "run s cs = Inr s' \<Longrightarrow> shape_ok s \<Longrightarrow> shape_ok s'"
proof (induction cs arbitrary: s)
  case Nil
  then show ?case by simp
next
  case (Cons c cs)
  then show ?case by (auto split: sum.splits dest: exec_shape_ok)
qed

lemma run_sizes:
  "run s cs = Inr s' \<Longrightarrow> nPoint s' = nPoint s \<and> nDim s' = nDim s \<and> nVar s' = nVar s"
proof (induction cs arbitrary: s)
  case Nil
  then show ?case by simp
next
  case (Cons c cs)
  then show ?case by (fastforce split: sum.splits dest: exec_sizes)
qed

lemma run_keeps_row:
  "run s cs = Inr s' \<Longrightarrow> list_all (\<lambda>c. f \<noteq> call_target c \<or> k \<noteq> call_node c) cs \<Longrightarrow>
     member_of f s' ! k = member_of f s ! k"
proof (induction cs arbitrary: s)
  case Nil
  then show ?case by simp
next
  case (Cons c cs)
  from Cons.prems(1) obtain s1 where e: "exec s c = Inr s1" and r: "run s1 cs = Inr s'"
    by (auto split: sum.splits)
  from Cons.prems(2) have c: "f \<noteq> call_target c \<or> k \<noteq> call_node c"
    and cs: "list_all (\<lambda>c. f \<noteq> call_target c \<or> k \<noteq> call_node c) cs"
    by simp_all
  have "member_of f s1 ! k = member_of f s ! k"
    using e c by (rule exec_keeps_row)
  moreover have "member_of f s' ! k = member_of f s1 ! k"
    using r cs by (rule Cons.IH)
  ultimately show ?case by simp
qed

text \<open>A sequence of writes \<open>Set_BGSSolution(iPoint, iVar, v)\<close>.\<close>

lemma run_writes_keep_member:
  "run s (map (\<lambda>(i, j, v). Call_Set_BGSSolution i j v) ws) = Inr s' \<Longrightarrow>
     Solution_BGS_k s' = Solution_BGS_k s"
proof (induction ws arbitrary: s)
  case Nil
  then show ?case by simp
next
  case (Cons w ws)
  obtain i j v where w: "w = (i, j, v)" by (cases w)
  from Cons.prems obtain s1 where e: "Set_BGSSolution s i j v = Inr s1"
    and r: "run s1 (map (\<lambda>(i, j, v). Call_Set_BGSSolution i j v) ws) = Inr s'"
    by (auto simp: w split: sum.splits)
  have "Solution_BGS_k s1 = Solution_BGS_k s"
    using e by (auto simp: Set_BGSSolution_def store_Inr_iff)
  then show ?case using Cons.IH [OF r] by simp
qed

lemma only_the_snapshot_call_targets:
  "c \<noteq> Call_Set_BGSSolution_k i \<Longrightarrow> F_Solution_BGS_k \<noteq> call_target c \<or> i \<noteq> call_node c"
  "c \<noteq> Call_Set_OldSolution_Geometry i \<Longrightarrow>
     F_Solution_Geometry_Old \<noteq> call_target c \<or> i \<noteq> call_node c"
  "c \<noteq> Call_Set_BGSSolution_Geometry i \<Longrightarrow>
     F_Solution_Geometry_BGS_k \<noteq> call_target c \<or> i \<noteq> call_node c"
  by (cases c; simp)+

subsection \<open>The snapshot methods on a store of the declared shape\<close>

lemma shape_ok_members:
  assumes "shape_ok s"
  shows "has_shape (Sensitivity s) (nPoint s) (nDim s)"
    and "has_shape (Solution_Direct s) (nPoint s) (nVar s)"
    and "has_shape (DualTime_Derivative s) (nPoint s) (nVar s)"
    and "has_shape (DualTime_Derivative_n s) (nPoint s) (nVar s)"
    and "has_shape (Cross_Term_Derivative s) (nPoint s) (nVar s)"
    and "has_shape (Geometry_CrossTerm_Derivative s) (nPoint s) (nDim s)"
    and "has_shape (Geometry_CrossTerm_Derivative_Flow s) (nPoint s) (nDim s)"
    and "has_shape (Solution_Geometry s) (nPoint s) (nDim s)"
    and "has_shape (Solution_Geometry_Old s) (nPoint s) (nDim s)"
    and "has_shape (Geometry_Direct s) (nPoint s) (nDim s)"
    and "has_shape (Solution_BGS s) (nPoint s) (nVar s)"
    and "has_shape (Solution_BGS_k s) (nPoint s) (nVar s)"
    and "has_shape (Solution_Geometry_BGS_k s) (nPoint s) (nDim s)"
  using assms by (simp_all add: shape_ok_def all_fields_def width_def)

lemma Set_BGSSolution_k_in_shape:
  assumes "shape_ok s" and "iPoint < nPoint s"
  shows "Set_BGSSolution_k s iPoint =
           Inr (s\<lparr>Solution_BGS_k := (Solution_BGS_k s)[iPoint := Solution_BGS s ! iPoint]\<rparr>)"
  using copy_row_loop_in_shape [OF shape_ok_members(12) [OF assms(1)]
          shape_ok_members(11) [OF assms(1)] assms(2)]
  by (simp add: Set_BGSSolution_k_def store_def)

lemma Set_OldSolution_Geometry_in_shape:
  assumes "shape_ok s" and "iPoint < nPoint s"
  shows "Set_OldSolution_Geometry s iPoint =
           Inr (s\<lparr>Solution_Geometry_Old :=
                    (Solution_Geometry_Old s)[iPoint := Solution_Geometry s ! iPoint]\<rparr>)"
  using copy_row_loop_in_shape [OF shape_ok_members(9) [OF assms(1)]
          shape_ok_members(8) [OF assms(1)] assms(2)]
  by (simp add: Set_OldSolution_Geometry_def store_def)

lemma Set_BGSSolution_Geometry_in_shape:
  assumes "shape_ok s" and "iPoint < nPoint s"
  shows "Set_BGSSolution_Geometry s iPoint =
           Inr (s\<lparr>Solution_Geometry_BGS_k :=
                    (Solution_Geometry_BGS_k s)[iPoint := Solution_Geometry s ! iPoint]\<rparr>)"
  using copy_row_loop_in_shape [OF shape_ok_members(13) [OF assms(1)]
          shape_ok_members(8) [OF assms(1)] assms(2)]
  by (simp add: Set_BGSSolution_Geometry_def store_def)

subsection \<open>The constructed store\<close>

lemma has_shape_replicate: "has_shape (replicate n (map g [0..<w])) n w"
  by (simp add: has_shape_def list_all_iff)

lemma constructed_members:
  assumes "CDiscAdjVariable sol N nd nv config = Inr s0"
  shows "nPoint s0 = N" and "nDim s0 = nd" and "nVar s0 = nv"
    and "member_of f s0 = replicate N (baseline_row config sol f (width f nd nv))"
  using assms
  by (cases f; auto simp: CDiscAdjVariable_def Let_def split: if_splits)+

lemma constructed_shape_ok:
  assumes "CDiscAdjVariable sol N nd nv config = Inr s0"
  shows "shape_ok s0"
  by (rule shape_okI)
     (simp add: constructed_members [OF assms] baseline_row_def has_shape_replicate)

lemma constructed_in_range:
  assumes "CDiscAdjVariable sol N nd nv config = Inr s0"
    and "config f = InitialValue" and "j < width f nd nv"
  shows "j < length sol"
proof -
  have "list_all (\<lambda>f. config f = InitialValue \<longrightarrow> width f nd nv \<le> length sol) all_fields"
    using assms(1) by (simp add: CDiscAdjVariable_def split: if_splits)
  moreover have "f \<in> set all_fields"
    by (cases f) (simp_all add: all_fields_def)
  ultimately have "width f nd nv \<le> length sol"
    using assms(2) by (auto simp: list_all_iff)
  then show ?thesis using assms(3) by simp
qed

lemma untouched_row_reads_baseline:
  assumes ctor: "CDiscAdjVariable sol N nd nv config = Inr s0"
    and run: "run s0 cs = Inr s"
    and quiet: "list_all (\<lambda>c. f \<noteq> call_target c \<or> iPoint \<noteq> call_node c) cs"
    and i: "iPoint < N" and j: "j < width f nd nv"
  shows "mat_get (member_of f s) iPoint j = Inr (baseline config sol f j)"
proof -
  have sh: "shape_ok s"
    using run constructed_shape_ok [OF ctor] by (rule run_shape_ok)
  have sz: "nPoint s = N" "nDim s = nd" "nVar s = nv"
    using run_sizes [OF run] constructed_members(1-3) [OF ctor] by simp_all
  have "has_shape (member_of f s) N (width f nd nv)"
    using shape_ok_member [OF sh, of f] sz by simp
  then have "mat_get (member_of f s) iPoint j = Inr (member_of f s ! iPoint ! j)"
    using i j by (rule mat_get_in_shape)
  moreover have "member_of f s ! iPoint = member_of f s0 ! iPoint"
    using run quiet by (rule run_keeps_row)
  moreover have "member_of f s0 ! iPoint ! j = baseline config sol f j"
    using i j by (simp add: constructed_members(4) [OF ctor] baseline_row_def)
  ultimately show ?thesis by simp
qed

subsection \<open>The example stores\<close>

lemma shape_ok_store_1_2_3: "shape_ok store_1_2_3"
  by (simp add: store_1_2_3_def shape_ok_def all_fields_def has_shape_def width_def)

lemma shape_ok_two_nodes: "shape_ok two_nodes"
  by (simp add: two_nodes_def shape_ok_def all_fields_def has_shape_def width_def)

lemma shape_ok_no_variables: "shape_ok no_variables"
  by (simp add: no_variables_def shape_ok_def all_fields_def has_shape_def width_def)

lemma upt_small: "[0..<2] = [0, Suc 0]" "[0..<3] = [0, Suc 0, 2]"
  by (simp_all add: upt_rec numeral_eq_Suc)

lemma replicate_small: "replicate 1 x = [x]" "replicate 2 x = [x, x]"
  by (simp_all add: numeral_eq_Suc)

lemma construct_fresh_store:
  "CDiscAdjVariable [1, 2, 3] 2 2 3 baseline_only_BGS_k = Inr fresh_store"
  by (simp add: CDiscAdjVariable_def baseline_only_BGS_k_def fresh_store_def all_fields_def
        width_def baseline_row_def baseline_def upt_small replicate_small)


section \<open>The claims\<close>

subsection \<open>C1: the BGS snapshot is an exact copy\<close>

text \<open>
  Claim C1. On a store of the declared shape and for a node \<open>iPoint < nPoint\<close>, the call
  \<open>Set_BGSSolution_k(iPoint)\<close> succeeds; afterwards, for every \<open>iVar < nVar\<close>,
  \<open>Get_BGSSolution_k(iPoint, iVar)\<close> returns the very value that
  \<open>Get_BGSSolution(iPoint, iVar)\<close> returns, before and after the call. Any later sequence
  of writes \<open>Set_BGSSolution\<close> (on any node, component and value) leaves every value of
  the snapshot of that node as it was.
\<close>

theorem snapshot_BGS_is_exact_copy:
  assumes "shape_ok s" and "iPoint < nPoint s"
  shows "\<exists>s'. Set_BGSSolution_k s iPoint = Inr s' \<and>
           (\<forall>iVar<nVar s. \<exists>v.
               Get_BGSSolution s iPoint iVar = Inr v \<and>
               Get_BGSSolution s' iPoint iVar = Inr v \<and>
               Get_BGSSolution_k s' iPoint iVar = Inr v) \<and>
           (\<forall>ws s''.
               run s' (map (\<lambda>(i, j, v). Call_Set_BGSSolution i j v) ws) = Inr s'' \<longrightarrow>
               (\<forall>iVar<nVar s.
                   Get_BGSSolution_k s'' iPoint iVar = Get_BGSSolution_k s' iPoint iVar))"
proof -
  let ?s' = "s\<lparr>Solution_BGS_k := (Solution_BGS_k s)[iPoint := Solution_BGS s ! iPoint]\<rparr>"
  have call: "Set_BGSSolution_k s iPoint = Inr ?s'"
    using assms by (rule Set_BGSSolution_k_in_shape)
  have cur: "has_shape (Solution_BGS s) (nPoint s) (nVar s)"
    and prev: "has_shape (Solution_BGS_k s) (nPoint s) (nVar s)"
    using assms(1) by (rule shape_ok_members)+
  have copy: "\<exists>v. Get_BGSSolution s iPoint iVar = Inr v \<and>
                  Get_BGSSolution ?s' iPoint iVar = Inr v \<and>
                  Get_BGSSolution_k ?s' iPoint iVar = Inr v" if "iVar < nVar s" for iVar
    using that assms(2) has_shape_length [OF cur] has_shape_length [OF prev]
      has_shape_row [OF cur assms(2)]
    by (simp add: Get_BGSSolution_def Get_BGSSolution_k_def mat_get_def)
  have frame: "Get_BGSSolution_k s'' iPoint iVar = Get_BGSSolution_k ?s' iPoint iVar"
    if "run ?s' (map (\<lambda>(i, j, v). Call_Set_BGSSolution i j v) ws) = Inr s''" for ws s'' iVar
    using run_writes_keep_member [OF that] by (simp add: Get_BGSSolution_k_def)
  show ?thesis using call copy frame by blast
qed

text \<open>
  The scenario of the claim on \<open>store_1_2_3\<close>: the current solution of node 0 is
  \<open>[1, 2, 3]\<close>, the snapshot is taken, three writes make the current solution
  \<open>[4, 5, 6]\<close>; then the snapshot is \<open>[1, 2, 3]\<close> and the current solution is
  \<open>[4, 5, 6]\<close>.
\<close>

theorem snapshot_BGS_is_exact_copy_witness:
  "shape_ok store_1_2_3 \<and> 0 < nPoint store_1_2_3 \<and>
   Set_BGSSolution_k store_1_2_3 0 = Inr (store_1_2_3\<lparr>Solution_BGS_k := [[1, 2, 3]]\<rparr>) \<and>
   Get_BGSSolution_k (store_1_2_3\<lparr>Solution_BGS_k := [[1, 2, 3]]\<rparr>) 0 0 = Inr 1 \<and>
   Get_BGSSolution_k (store_1_2_3\<lparr>Solution_BGS_k := [[1, 2, 3]]\<rparr>) 0 1 = Inr 2 \<and>
   Get_BGSSolution_k (store_1_2_3\<lparr>Solution_BGS_k := [[1, 2, 3]]\<rparr>) 0 2 = Inr 3 \<and>
   run (store_1_2_3\<lparr>Solution_BGS_k := [[1, 2, 3]]\<rparr>)
     [Call_Set_BGSSolution 0 0 4, Call_Set_BGSSolution 0 1 5, Call_Set_BGSSolution 0 2 6] =
     Inr (store_1_2_3\<lparr>Solution_BGS := [[4, 5, 6]], Solution_BGS_k := [[1, 2, 3]]\<rparr>) \<and>
   mat_row (Solution_BGS_k
     (store_1_2_3\<lparr>Solution_BGS := [[4, 5, 6]], Solution_BGS_k := [[1, 2, 3]]\<rparr>)) 0 =
     Inr [1, 2, 3] \<and>
   mat_row (Solution_BGS
     (store_1_2_3\<lparr>Solution_BGS := [[4, 5, 6]], Solution_BGS_k := [[1, 2, 3]]\<rparr>)) 0 =
     Inr [4, 5, 6]"
  using snapshot_BGS_is_exact_copy [OF shape_ok_store_1_2_3, of 0]
  by (simp add: shape_ok_store_1_2_3)
     (simp add: store_1_2_3_def Set_BGSSolution_k_def copy_row_loop_closed
        Get_BGSSolution_k_def mat_get_def Set_BGSSolution_def mat_set_def store_def
        mat_row_def GetSolution_Direct_def)

subsection \<open>C2: a setter overwrites, and the getter reads the value back\<close>

text \<open>
  Claim C2. On a store of the declared shape, for a node \<open>iPoint < nPoint\<close>, a component
  within the width of the member (\<open>iVar < nVar\<close> for a member with one column per
  variable, \<open>iDim < nDim\<close> for a member with one column per dimension), and for any
  value \<open>v\<close>: each setter succeeds, and the getter of the same member on the same node
  and component then returns exactly \<open>v\<close>, whatever the entry held before. For the
  members written by a batched set, a vector of the width of the member is read back
  entry by entry.
\<close>

theorem set_then_get_round_trip:
  assumes "shape_ok s" and "iPoint < nPoint s"
  shows
    "(iDim < nDim s \<longrightarrow>
        (\<exists>s'. SetSensitivity s iPoint iDim v = Inr s' \<and>
              GetSensitivity s' iPoint iDim = Inr v) \<and>
        (\<exists>s'. SetGeometry_CrossTerm_Derivative s iPoint iDim v = Inr s' \<and>
              GetGeometry_CrossTerm_Derivative s' iPoint iDim = Inr v) \<and>
        (\<exists>s'. SetGeometry_CrossTerm_Derivative_Flow s iPoint iDim v = Inr s' \<and>
              GetGeometry_CrossTerm_Derivative_Flow s' iPoint iDim = Inr v) \<and>
        (\<exists>s'. SetSolution_Geometry s iPoint iDim v = Inr s' \<and>
              GetSolution_Geometry s' iPoint iDim = Inr v)) \<and>
     (iVar < nVar s \<longrightarrow>
        (\<exists>s'. SetDual_Time_Derivative s iPoint iVar v = Inr s' \<and>
              GetDual_Time_Derivative s' iPoint iVar = Inr v) \<and>
        (\<exists>s'. SetDual_Time_Derivative_n s iPoint iVar v = Inr s' \<and>
              GetDual_Time_Derivative_n s' iPoint iVar = Inr v) \<and>
        (\<exists>s'. SetCross_Term_Derivative s iPoint iVar v = Inr s' \<and>
              GetCross_Term_Derivative s' iPoint iVar = Inr v) \<and>
        (\<exists>s'. Set_BGSSolution s iPoint iVar v = Inr s' \<and>
              Get_BGSSolution s' iPoint iVar = Inr v)) \<and>
     (length vals = nVar s \<longrightarrow>
        (\<exists>s'. SetSolution_Direct s iPoint vals = Inr s' \<and>
              GetSolution_Direct s' iPoint = Inr vals)) \<and>
     (length coords = nDim s \<longrightarrow>
        (\<exists>s'. SetGeometry_Direct s iPoint coords = Inr s' \<and>
              GetGeometry_Direct_row s' iPoint = Inr coords \<and>
              (iDim < nDim s \<longrightarrow> GetGeometry_Direct s' iPoint iDim = Inr (coords ! iDim))) \<and>
        (\<exists>s'. SetSolution_Geometry_vec s iPoint coords = Inr s' \<and>
              mat_row (Solution_Geometry s') iPoint = Inr coords \<and>
              (iDim < nDim s \<longrightarrow> GetSolution_Geometry s' iPoint iDim = Inr (coords ! iDim))))"
proof -
  note sh = shape_ok_members [OF assms(1)]
  note n = assms(2)
  have 1: "\<exists>s'. SetSensitivity s iPoint iDim v = Inr s' \<and>
                GetSensitivity s' iPoint iDim = Inr v" if jd: "iDim < nDim s"
    using mat_set_then_get_in_shape [OF sh(1) n jd, of v]
    by (auto simp: SetSensitivity_def GetSensitivity_def store_def)
  have 2: "\<exists>s'. SetDual_Time_Derivative s iPoint iVar v = Inr s' \<and>
                GetDual_Time_Derivative s' iPoint iVar = Inr v" if jv: "iVar < nVar s"
    using mat_set_then_get_in_shape [OF sh(3) n jv, of v]
    by (auto simp: SetDual_Time_Derivative_def GetDual_Time_Derivative_def store_def)
  have 3: "\<exists>s'. SetDual_Time_Derivative_n s iPoint iVar v = Inr s' \<and>
                GetDual_Time_Derivative_n s' iPoint iVar = Inr v" if jv: "iVar < nVar s"
    using mat_set_then_get_in_shape [OF sh(4) n jv, of v]
    by (auto simp: SetDual_Time_Derivative_n_def GetDual_Time_Derivative_n_def store_def)
  have 4: "\<exists>s'. SetCross_Term_Derivative s iPoint iVar v = Inr s' \<and>
                GetCross_Term_Derivative s' iPoint iVar = Inr v" if jv: "iVar < nVar s"
    using mat_set_then_get_in_shape [OF sh(5) n jv, of v]
    by (auto simp: SetCross_Term_Derivative_def GetCross_Term_Derivative_def store_def)
  have 5: "\<exists>s'. SetGeometry_CrossTerm_Derivative s iPoint iDim v = Inr s' \<and>
                GetGeometry_CrossTerm_Derivative s' iPoint iDim = Inr v" if jd: "iDim < nDim s"
    using mat_set_then_get_in_shape [OF sh(6) n jd, of v]
    by (auto simp: SetGeometry_CrossTerm_Derivative_def
                   GetGeometry_CrossTerm_Derivative_def store_def)
  have 6: "\<exists>s'. SetGeometry_CrossTerm_Derivative_Flow s iPoint iDim v = Inr s' \<and>
                GetGeometry_CrossTerm_Derivative_Flow s' iPoint iDim = Inr v"
    if jd: "iDim < nDim s"
    using mat_set_then_get_in_shape [OF sh(7) n jd, of v]
    by (auto simp: SetGeometry_CrossTerm_Derivative_Flow_def
                   GetGeometry_CrossTerm_Derivative_Flow_def store_def)
  have 7: "\<exists>s'. SetSolution_Geometry s iPoint iDim v = Inr s' \<and>
                GetSolution_Geometry s' iPoint iDim = Inr v" if jd: "iDim < nDim s"
    using mat_set_then_get_in_shape [OF sh(8) n jd, of v]
    by (auto simp: SetSolution_Geometry_def GetSolution_Geometry_def store_def)
  have 8: "\<exists>s'. Set_BGSSolution s iPoint iVar v = Inr s' \<and>
                Get_BGSSolution s' iPoint iVar = Inr v" if jv: "iVar < nVar s"
    using mat_set_then_get_in_shape [OF sh(11) n jv, of v]
    by (auto simp: Set_BGSSolution_def Get_BGSSolution_def store_def)
  have 9: "\<exists>s'. SetSolution_Direct s iPoint vals = Inr s' \<and>
                GetSolution_Direct s' iPoint = Inr vals" if "length vals = nVar s"
    using set_row_loop_in_shape [OF sh(2) n, of vals] that n has_shape_length [OF sh(2)]
    by (simp add: SetSolution_Direct_def GetSolution_Direct_def store_def mat_row_def)
  have 10: "\<exists>s'. SetGeometry_Direct s iPoint coords = Inr s' \<and>
                 GetGeometry_Direct_row s' iPoint = Inr coords \<and>
                 (iDim < nDim s \<longrightarrow> GetGeometry_Direct s' iPoint iDim = Inr (coords ! iDim))"
    if "length coords = nDim s"
    using set_row_loop_in_shape [OF sh(10) n, of coords] that n
      has_shape_length [OF sh(10)]
    by (simp add: SetGeometry_Direct_def GetGeometry_Direct_def GetGeometry_Direct_row_def
          store_def mat_row_def mat_get_def)
  have 11: "\<exists>s'. SetSolution_Geometry_vec s iPoint coords = Inr s' \<and>
                 mat_row (Solution_Geometry s') iPoint = Inr coords \<and>
                 (iDim < nDim s \<longrightarrow> GetSolution_Geometry s' iPoint iDim = Inr (coords ! iDim))"
    if "length coords = nDim s"
    using set_row_loop_in_shape [OF sh(8) n, of coords] that n
      has_shape_length [OF sh(8)]
    by (simp add: SetSolution_Geometry_vec_def GetSolution_Geometry_def store_def
          mat_row_def mat_get_def)
  show ?thesis
    using 1 2 3 4 5 6 7 8 9 10 11 by (intro conjI impI)
qed

theorem set_then_get_round_trip_witness:
  "shape_ok two_nodes \<and> 1 < nPoint two_nodes \<and> 2 < nVar two_nodes \<and> 1 < nDim two_nodes \<and>
   length [7, 8, 9 :: real] = nVar two_nodes \<and> length [5, 6 :: real] = nDim two_nodes \<and>
   GetSensitivity two_nodes 1 1 = Inr 4 \<and>
   SetSensitivity two_nodes 1 1 9 = Inr (two_nodes\<lparr>Sensitivity := [[1, 2], [3, 9]]\<rparr>) \<and>
   GetSensitivity (two_nodes\<lparr>Sensitivity := [[1, 2], [3, 9]]\<rparr>) 1 1 = Inr 9 \<and>
   GetCross_Term_Derivative two_nodes 1 2 = Inr 6 \<and>
   SetCross_Term_Derivative two_nodes 1 2 9 =
     Inr (two_nodes\<lparr>Cross_Term_Derivative := [[1, 2, 3], [4, 5, 9]]\<rparr>) \<and>
   GetCross_Term_Derivative (two_nodes\<lparr>Cross_Term_Derivative := [[1, 2, 3], [4, 5, 9]]\<rparr>) 1 2 =
     Inr 9 \<and>
   SetSolution_Direct two_nodes 1 [7, 8, 9] =
     Inr (two_nodes\<lparr>Solution_Direct := [[1, 2, 3], [7, 8, 9]]\<rparr>) \<and>
   GetSolution_Direct (two_nodes\<lparr>Solution_Direct := [[1, 2, 3], [7, 8, 9]]\<rparr>) 1 =
     Inr [7, 8, 9] \<and>
   SetGeometry_Direct two_nodes 1 [5, 6] =
     Inr (two_nodes\<lparr>Geometry_Direct := [[1, 2], [5, 6]]\<rparr>) \<and>
   GetGeometry_Direct (two_nodes\<lparr>Geometry_Direct := [[1, 2], [5, 6]]\<rparr>) 1 1 = Inr 6 \<and>
   shape_ok no_variables \<and> 0 < nPoint no_variables \<and> 1 < nDim no_variables \<and>
   SetSensitivity no_variables 0 1 9 = Inr (no_variables\<lparr>Sensitivity := [[0, 9]]\<rparr>) \<and>
   GetSensitivity (no_variables\<lparr>Sensitivity := [[0, 9]]\<rparr>) 0 1 = Inr 9"
  using
    set_then_get_round_trip [OF shape_ok_two_nodes,
      where iPoint = 1 and iVar = 2 and iDim = 1 and vals = "[7, 8, 9]"
        and coords = "[5, 6]" and v = 9]
    set_then_get_round_trip [OF shape_ok_no_variables,
      where iPoint = 0 and iVar = 0 and iDim = 1 and vals = "[]"
        and coords = "[5, 6]" and v = 9]
  by (simp add: shape_ok_two_nodes shape_ok_no_variables)
     (simp add: two_nodes_def no_variables_def SetSensitivity_def GetSensitivity_def
        SetCross_Term_Derivative_def GetCross_Term_Derivative_def SetSolution_Direct_def
        GetSolution_Direct_def SetGeometry_Direct_def GetGeometry_Direct_def
        set_row_loop_closed mat_get_def mat_set_def mat_row_def store_def)

subsection \<open>C3: the two dual-time slots\<close>

text \<open>
  Claim C3. \<open>SetDual_Time_Derivative\<close> changes no entry of \<open>DualTime_Derivative_n\<close>,
  and \<open>SetDual_Time_Derivative_n\<close> changes no entry of \<open>DualTime_Derivative\<close>. On a
  store of the declared shape and for a valid node and variable: when the caller reads
  the current value, writes it to the previous slot and then sets a new current value,
  \<open>GetDual_Time_Derivative_n\<close> returns the value that was current before, and
  \<open>GetDual_Time_Derivative\<close> returns the new one.
\<close>

theorem dual_time_slots_independent:
  assumes "shape_ok s" and "iPoint < nPoint s" and "iVar < nVar s"
  shows
    "(\<forall>i j v s' k l. SetDual_Time_Derivative s i j v = Inr s' \<longrightarrow>
        GetDual_Time_Derivative_n s' k l = GetDual_Time_Derivative_n s k l) \<and>
     (\<forall>i j v s' k l. SetDual_Time_Derivative_n s i j v = Inr s' \<longrightarrow>
        GetDual_Time_Derivative s' k l = GetDual_Time_Derivative s k l) \<and>
     (\<exists>old s1 s2.
        GetDual_Time_Derivative s iPoint iVar = Inr old \<and>
        SetDual_Time_Derivative_n s iPoint iVar old = Inr s1 \<and>
        SetDual_Time_Derivative s1 iPoint iVar new = Inr s2 \<and>
        GetDual_Time_Derivative_n s2 iPoint iVar = Inr old \<and>
        GetDual_Time_Derivative s2 iPoint iVar = Inr new)"
proof -
  note sh = shape_ok_members [OF assms(1)]
  have a: "GetDual_Time_Derivative_n s' k l = GetDual_Time_Derivative_n s k l"
    if "SetDual_Time_Derivative s i j v = Inr s'" for i j v s' k l
    using that
    by (auto simp: SetDual_Time_Derivative_def GetDual_Time_Derivative_n_def store_Inr_iff)
  have b: "GetDual_Time_Derivative s' k l = GetDual_Time_Derivative s k l"
    if "SetDual_Time_Derivative_n s i j v = Inr s'" for i j v s' k l
    using that
    by (auto simp: SetDual_Time_Derivative_n_def GetDual_Time_Derivative_def store_Inr_iff)
  let ?old = "DualTime_Derivative s ! iPoint ! iVar"
  let ?s1 = "s\<lparr>DualTime_Derivative_n :=
                 (DualTime_Derivative_n s)[iPoint := (DualTime_Derivative_n s ! iPoint)[iVar := ?old]]\<rparr>"
  let ?s2 = "?s1\<lparr>DualTime_Derivative :=
                 (DualTime_Derivative s)[iPoint := (DualTime_Derivative s ! iPoint)[iVar := new]]\<rparr>"
  have g: "GetDual_Time_Derivative s iPoint iVar = Inr ?old"
    using mat_get_in_shape [OF sh(3) assms(2,3)] by (simp add: GetDual_Time_Derivative_def)
  have w1: "SetDual_Time_Derivative_n s iPoint iVar ?old = Inr ?s1"
    using mat_set_in_shape [OF sh(4) assms(2,3)]
    by (simp add: SetDual_Time_Derivative_n_def store_def)
  have w2: "SetDual_Time_Derivative ?s1 iPoint iVar new = Inr ?s2"
    using mat_set_in_shape [OF sh(3) assms(2,3)]
    by (simp add: SetDual_Time_Derivative_def store_def)
  have r1: "GetDual_Time_Derivative_n ?s2 iPoint iVar = Inr ?old"
    using assms(2,3) has_shape_length [OF sh(4)] has_shape_row [OF sh(4) assms(2)]
    by (simp add: GetDual_Time_Derivative_n_def mat_get_def)
  have r2: "GetDual_Time_Derivative ?s2 iPoint iVar = Inr new"
    using assms(2,3) has_shape_length [OF sh(3)] has_shape_row [OF sh(3) assms(2)]
    by (simp add: GetDual_Time_Derivative_def mat_get_def)
  show ?thesis
    using a b g w1 w2 r1 r2 by blast
qed

theorem dual_time_slots_independent_witness:
  "shape_ok two_nodes \<and> 0 < nPoint two_nodes \<and> 0 < nVar two_nodes \<and>
   GetDual_Time_Derivative two_nodes 0 0 = Inr 10 \<and>
   SetDual_Time_Derivative_n two_nodes 0 0 10 =
     Inr (two_nodes\<lparr>DualTime_Derivative_n := [[10, 21, 31], [41, 51, 61]]\<rparr>) \<and>
   SetDual_Time_Derivative
     (two_nodes\<lparr>DualTime_Derivative_n := [[10, 21, 31], [41, 51, 61]]\<rparr>) 0 0 20 =
     Inr (two_nodes\<lparr>DualTime_Derivative := [[20, 20, 30], [40, 50, 60]],
                    DualTime_Derivative_n := [[10, 21, 31], [41, 51, 61]]\<rparr>) \<and>
   GetDual_Time_Derivative_n
     (two_nodes\<lparr>DualTime_Derivative := [[20, 20, 30], [40, 50, 60]],
                DualTime_Derivative_n := [[10, 21, 31], [41, 51, 61]]\<rparr>) 0 0 = Inr 10 \<and>
   GetDual_Time_Derivative
     (two_nodes\<lparr>DualTime_Derivative := [[20, 20, 30], [40, 50, 60]],
                DualTime_Derivative_n := [[10, 21, 31], [41, 51, 61]]\<rparr>) 0 0 = Inr 20"
  using dual_time_slots_independent [OF shape_ok_two_nodes, of 0 0 20]
  by (simp add: shape_ok_two_nodes)
     (simp add: two_nodes_def SetDual_Time_Derivative_def SetDual_Time_Derivative_n_def
        GetDual_Time_Derivative_def GetDual_Time_Derivative_n_def mat_get_def mat_set_def
        store_def)

subsection \<open>C4: the two snapshots of the geometry solution\<close>

text \<open>
  Claim C4. On a store of the declared shape and for a node \<open>iPoint < nPoint\<close>,
  \<open>Set_BGSSolution_Geometry(iPoint)\<close> succeeds and copies the \<open>nDim\<close> components of
  the live \<open>Solution_Geometry\<close> of that node into \<open>Solution_Geometry_BGS_k\<close>, and
  \<open>Set_OldSolution_Geometry(iPoint)\<close> succeeds and copies the same components into
  \<open>Solution_Geometry_Old\<close>. Neither call changes an entry of the snapshot member of
  the other, nor of \<open>Solution_Geometry\<close>.
\<close>

theorem geometry_snapshots_are_separate:
  assumes "shape_ok s" and "iPoint < nPoint s"
  shows
    "(\<exists>s'. Set_BGSSolution_Geometry s iPoint = Inr s' \<and>
        (\<forall>iDim<nDim s. \<exists>v. GetSolution_Geometry s iPoint iDim = Inr v \<and>
                             Get_BGSSolution_Geometry s' iPoint iDim = Inr v) \<and>
        (\<forall>k l. Get_OldSolution_Geometry s' k l = Get_OldSolution_Geometry s k l) \<and>
        (\<forall>k l. GetSolution_Geometry s' k l = GetSolution_Geometry s k l)) \<and>
     (\<exists>s'. Set_OldSolution_Geometry s iPoint = Inr s' \<and>
        (\<forall>iDim<nDim s. \<exists>v. GetSolution_Geometry s iPoint iDim = Inr v \<and>
                             Get_OldSolution_Geometry s' iPoint iDim = Inr v) \<and>
        (\<forall>k l. Get_BGSSolution_Geometry s' k l = Get_BGSSolution_Geometry s k l) \<and>
        (\<forall>k l. GetSolution_Geometry s' k l = GetSolution_Geometry s k l))"
proof -
  note sh = shape_ok_members [OF assms(1)]
  have live: "GetSolution_Geometry s iPoint iDim = Inr (Solution_Geometry s ! iPoint ! iDim)"
    if "iDim < nDim s" for iDim
    using mat_get_in_shape [OF sh(8) assms(2) that] by (simp add: GetSolution_Geometry_def)
  let ?b = "s\<lparr>Solution_Geometry_BGS_k :=
               (Solution_Geometry_BGS_k s)[iPoint := Solution_Geometry s ! iPoint]\<rparr>"
  let ?o = "s\<lparr>Solution_Geometry_Old :=
               (Solution_Geometry_Old s)[iPoint := Solution_Geometry s ! iPoint]\<rparr>"
  have cb: "Set_BGSSolution_Geometry s iPoint = Inr ?b"
    using assms by (rule Set_BGSSolution_Geometry_in_shape)
  have co: "Set_OldSolution_Geometry s iPoint = Inr ?o"
    using assms by (rule Set_OldSolution_Geometry_in_shape)
  have rb: "Get_BGSSolution_Geometry ?b iPoint iDim = Inr (Solution_Geometry s ! iPoint ! iDim)"
    if "iDim < nDim s" for iDim
    using that assms(2) has_shape_length [OF sh(13)] has_shape_row [OF sh(8) assms(2)]
    by (simp add: Get_BGSSolution_Geometry_def mat_get_def)
  have ro: "Get_OldSolution_Geometry ?o iPoint iDim = Inr (Solution_Geometry s ! iPoint ! iDim)"
    if "iDim < nDim s" for iDim
    using that assms(2) has_shape_length [OF sh(9)] has_shape_row [OF sh(8) assms(2)]
    by (simp add: Get_OldSolution_Geometry_def mat_get_def)
  have fb: "Get_OldSolution_Geometry ?b k l = Get_OldSolution_Geometry s k l"
    "GetSolution_Geometry ?b k l = GetSolution_Geometry s k l" for k l
    by (simp_all add: Get_OldSolution_Geometry_def GetSolution_Geometry_def)
  have fo: "Get_BGSSolution_Geometry ?o k l = Get_BGSSolution_Geometry s k l"
    "GetSolution_Geometry ?o k l = GetSolution_Geometry s k l" for k l
    by (simp_all add: Get_BGSSolution_Geometry_def GetSolution_Geometry_def)
  have "\<exists>s'. Set_BGSSolution_Geometry s iPoint = Inr s' \<and>
        (\<forall>iDim<nDim s. \<exists>v. GetSolution_Geometry s iPoint iDim = Inr v \<and>
                             Get_BGSSolution_Geometry s' iPoint iDim = Inr v) \<and>
        (\<forall>k l. Get_OldSolution_Geometry s' k l = Get_OldSolution_Geometry s k l) \<and>
        (\<forall>k l. GetSolution_Geometry s' k l = GetSolution_Geometry s k l)"
    using cb live rb fb by blast
  moreover have "\<exists>s'. Set_OldSolution_Geometry s iPoint = Inr s' \<and>
        (\<forall>iDim<nDim s. \<exists>v. GetSolution_Geometry s iPoint iDim = Inr v \<and>
                             Get_OldSolution_Geometry s' iPoint iDim = Inr v) \<and>
        (\<forall>k l. Get_BGSSolution_Geometry s' k l = Get_BGSSolution_Geometry s k l) \<and>
        (\<forall>k l. GetSolution_Geometry s' k l = GetSolution_Geometry s k l)"
    using co live ro fo by blast
  ultimately show ?thesis by (rule conjI)
qed

theorem geometry_snapshots_are_separate_witness:
  "shape_ok two_nodes \<and> 1 < nPoint two_nodes \<and>
   Set_BGSSolution_Geometry two_nodes 1 =
     Inr (two_nodes\<lparr>Solution_Geometry_BGS_k := [[16, 26], [32, 42]]\<rparr>) \<and>
   Get_BGSSolution_Geometry (two_nodes\<lparr>Solution_Geometry_BGS_k := [[16, 26], [32, 42]]\<rparr>) 1 1 =
     Inr 42 \<and>
   Get_OldSolution_Geometry (two_nodes\<lparr>Solution_Geometry_BGS_k := [[16, 26], [32, 42]]\<rparr>) 1 1 =
     Inr 43 \<and>
   Set_OldSolution_Geometry two_nodes 1 =
     Inr (two_nodes\<lparr>Solution_Geometry_Old := [[13, 23], [32, 42]]\<rparr>) \<and>
   Get_OldSolution_Geometry (two_nodes\<lparr>Solution_Geometry_Old := [[13, 23], [32, 42]]\<rparr>) 1 1 =
     Inr 42 \<and>
   Get_BGSSolution_Geometry (two_nodes\<lparr>Solution_Geometry_Old := [[13, 23], [32, 42]]\<rparr>) 1 1 =
     Inr 46"
  using geometry_snapshots_are_separate [OF shape_ok_two_nodes, of 1]
  by (simp add: shape_ok_two_nodes)
     (simp add: two_nodes_def Set_BGSSolution_Geometry_def Set_OldSolution_Geometry_def
        Get_BGSSolution_Geometry_def Get_OldSolution_Geometry_def copy_row_loop_closed
        mat_get_def store_def)

subsection \<open>C5: indices outside the shape\<close>




subsection \<open>C6: independence across nodes\<close>

text \<open>
  Claim C6. A successful call of any setter or snapshot method, with any arguments, on
  node \<open>i\<close> leaves node \<open>j \<noteq> i\<close> as it was in every member: the row of \<open>j\<close> and
  every entry of it read as before the call.
\<close>

theorem calls_leave_other_nodes:
  assumes "exec s c = Inr s'" and "call_node c = i" and "j \<noteq> i"
  shows "(\<forall>f. mat_row (member_of f s') j = mat_row (member_of f s) j) \<and>
         (\<forall>f k. mat_get (member_of f s') j k = mat_get (member_of f s) j k)"
proof -
  have row: "member_of f s' ! j = member_of f s ! j" for f
    using assms by (intro exec_keeps_row [of s c]) simp_all
  have len: "length (member_of f s') = length (member_of f s)" for f
    using exec_dims [OF assms(1), of f] by (metis length_map)
  show ?thesis
    using row len by (simp add: mat_row_def mat_get_def)
qed

theorem calls_leave_other_nodes_witness:
  "exec two_nodes (Call_Set_BGSSolution_k 0) =
     Inr (two_nodes\<lparr>Solution_BGS_k := [[14, 24, 34], [45, 55, 65]]\<rparr>) \<and>
   call_node (Call_Set_BGSSolution_k 0 :: real call) = 0 \<and> (1 :: nat) \<noteq> 0 \<and>
   mat_row (member_of F_Solution_BGS_k
     (two_nodes\<lparr>Solution_BGS_k := [[14, 24, 34], [45, 55, 65]]\<rparr>)) 1 = Inr [45, 55, 65] \<and>
   mat_row (member_of F_Solution_BGS_k two_nodes) 1 = Inr [45, 55, 65] \<and>
   Get_BGSSolution_k (two_nodes\<lparr>Solution_BGS_k := [[14, 24, 34], [45, 55, 65]]\<rparr>) 1 2 =
     Inr 65"
proof -
  have e: "exec two_nodes (Call_Set_BGSSolution_k 0) =
             Inr (two_nodes\<lparr>Solution_BGS_k := [[14, 24, 34], [45, 55, 65]]\<rparr>)"
    by (simp add: two_nodes_def Set_BGSSolution_k_def copy_row_loop_closed store_def)
  show ?thesis
    using calls_leave_other_nodes [OF e, of 0 1] e
    by (simp add: two_nodes_def mat_row_def mat_get_def Get_BGSSolution_k_def)
qed

subsection \<open>C7: the store after construction\<close>

text \<open>
  Claim C7. When the constructor returns a store for
  \<open>(sol, N, nDim, nVar, config)\<close>, the store has these sizes and every member has
  exactly \<open>N\<close> rows of the width of its axis. After any sequence of successful calls in
  which the snapshot method of a snapshot member (\<open>Solution_BGS_k\<close>,
  \<open>Solution_Geometry_Old\<close>, \<open>Solution_Geometry_BGS_k\<close>) was never called for node
  \<open>iPoint < N\<close>, the getter of that member returns, for that node and every component
  within the width, the value of construction and no error; that value is the entry of
  the initial vector \<open>sol\<close> for the component, or zero.
\<close>

theorem constructed_store_reads_baseline:
  assumes "CDiscAdjVariable sol N nd nv config = Inr s0"
  shows
    "nPoint s0 = N \<and> nDim s0 = nd \<and> nVar s0 = nv \<and>
     (\<forall>f. has_shape (member_of f s0) N (if per_variable f then nv else nd)) \<and>
     (\<forall>cs s iPoint. run s0 cs = Inr s \<and> iPoint < N \<longrightarrow>
        (list_all (\<lambda>c. c \<noteq> Call_Set_BGSSolution_k iPoint) cs \<longrightarrow>
           (\<forall>iVar<nv. Get_BGSSolution_k s iPoint iVar =
                         Inr (baseline config sol F_Solution_BGS_k iVar))) \<and>
        (list_all (\<lambda>c. c \<noteq> Call_Set_OldSolution_Geometry iPoint) cs \<longrightarrow>
           (\<forall>iDim<nd. Get_OldSolution_Geometry s iPoint iDim =
                         Inr (baseline config sol F_Solution_Geometry_Old iDim))) \<and>
        (list_all (\<lambda>c. c \<noteq> Call_Set_BGSSolution_Geometry iPoint) cs \<longrightarrow>
           (\<forall>iDim<nd. Get_BGSSolution_Geometry s iPoint iDim =
                         Inr (baseline config sol F_Solution_Geometry_BGS_k iDim)))) \<and>
     (\<forall>f j. j < (if per_variable f then nv else nd) \<longrightarrow>
        baseline config sol f j = 0 \<or> (j < length sol \<and> baseline config sol f j = sol ! j))"
proof -
  note m = constructed_members [OF assms]
  have shapes: "has_shape (member_of f s0) N (if per_variable f then nv else nd)" for f
    using shape_ok_member [OF constructed_shape_ok [OF assms], of f] m(1-3)
    by (simp add: width_def)
  have bgs_k: "Get_BGSSolution_k s iPoint iVar = Inr (baseline config sol F_Solution_BGS_k iVar)"
    if "run s0 cs = Inr s" and "iPoint < N" and "iVar < nv"
      and "list_all (\<lambda>c. c \<noteq> Call_Set_BGSSolution_k iPoint) cs" for cs s iPoint iVar
  proof -
    have "list_all (\<lambda>c. F_Solution_BGS_k \<noteq> call_target c \<or> iPoint \<noteq> call_node c) cs"
      using that(4) only_the_snapshot_call_targets(1) by (auto simp: list_all_iff)
    from untouched_row_reads_baseline [OF assms that(1) this that(2), of iVar] that(3)
    show ?thesis by (simp add: Get_BGSSolution_k_def width_def)
  qed
  have old: "Get_OldSolution_Geometry s iPoint iDim =
               Inr (baseline config sol F_Solution_Geometry_Old iDim)"
    if "run s0 cs = Inr s" and "iPoint < N" and "iDim < nd"
      and "list_all (\<lambda>c. c \<noteq> Call_Set_OldSolution_Geometry iPoint) cs" for cs s iPoint iDim
  proof -
    have "list_all (\<lambda>c. F_Solution_Geometry_Old \<noteq> call_target c \<or> iPoint \<noteq> call_node c) cs"
      using that(4) only_the_snapshot_call_targets(2) by (auto simp: list_all_iff)
    from untouched_row_reads_baseline [OF assms that(1) this that(2), of iDim] that(3)
    show ?thesis by (simp add: Get_OldSolution_Geometry_def width_def)
  qed
  have geo_k: "Get_BGSSolution_Geometry s iPoint iDim =
                 Inr (baseline config sol F_Solution_Geometry_BGS_k iDim)"
    if "run s0 cs = Inr s" and "iPoint < N" and "iDim < nd"
      and "list_all (\<lambda>c. c \<noteq> Call_Set_BGSSolution_Geometry iPoint) cs" for cs s iPoint iDim
  proof -
    have "list_all (\<lambda>c. F_Solution_Geometry_BGS_k \<noteq> call_target c \<or> iPoint \<noteq> call_node c) cs"
      using that(4) only_the_snapshot_call_targets(3) by (auto simp: list_all_iff)
    from untouched_row_reads_baseline [OF assms that(1) this that(2), of iDim] that(3)
    show ?thesis by (simp add: Get_BGSSolution_Geometry_def width_def)
  qed
  have base: "baseline config sol f j = 0 \<or> (j < length sol \<and> baseline config sol f j = sol ! j)"
    if "j < (if per_variable f then nv else nd)" for f j
  proof (cases "config f")
    case InitialValue
    then show ?thesis
      using constructed_in_range [OF assms InitialValue, of j] that
      by (simp add: baseline_def width_def)
  next
    case Zero
    then show ?thesis by (simp add: baseline_def)
  qed
  show ?thesis
    using m(1-3) shapes bgs_k old geo_k base by blast
qed

theorem constructed_store_reads_baseline_witness:
  "CDiscAdjVariable [1, 2, 3] 2 2 3 baseline_only_BGS_k = Inr fresh_store \<and>
   run fresh_store [Call_SetSensitivity 1 0 7, Call_Set_BGSSolution_k 0,
                    Call_Set_BGSSolution 1 2 8] =
     Inr (fresh_store\<lparr>Sensitivity := [[0, 0], [7, 0]],
                      Solution_BGS := [[0, 0, 0], [0, 0, 8]],
                      Solution_BGS_k := [[0, 0, 0], [1, 2, 3]]\<rparr>) \<and>
   list_all (\<lambda>c. c \<noteq> Call_Set_BGSSolution_k 1)
     [Call_SetSensitivity 1 0 7, Call_Set_BGSSolution_k 0, Call_Set_BGSSolution 1 2 (8 :: real)] \<and>
   Get_BGSSolution_k
     (fresh_store\<lparr>Sensitivity := [[0, 0], [7, 0]],
                  Solution_BGS := [[0, 0, 0], [0, 0, 8]],
                  Solution_BGS_k := [[0, 0, 0], [1, 2, 3]]\<rparr>) 1 2 = Inr 3 \<and>
   baseline baseline_only_BGS_k [1, 2, 3 :: real] F_Solution_BGS_k 2 = 3 \<and>
   Get_OldSolution_Geometry fresh_store 1 1 = Inr 0 \<and>
   Get_BGSSolution_Geometry fresh_store 1 1 = Inr 0"
proof -
  have r: "run fresh_store [Call_SetSensitivity 1 0 7, Call_Set_BGSSolution_k 0,
                    Call_Set_BGSSolution 1 2 8] =
     Inr (fresh_store\<lparr>Sensitivity := [[0, 0], [7, 0]],
                      Solution_BGS := [[0, 0, 0], [0, 0, 8]],
                      Solution_BGS_k := [[0, 0, 0], [1, 2, 3]]\<rparr>)"
    by (simp add: fresh_store_def SetSensitivity_def Set_BGSSolution_k_def
          Set_BGSSolution_def copy_row_loop_closed mat_set_def store_def)
  show ?thesis
    using constructed_store_reads_baseline [OF construct_fresh_store] r
    by (simp add: construct_fresh_store)
       (simp add: fresh_store_def Get_BGSSolution_k_def Get_OldSolution_Geometry_def
          Get_BGSSolution_Geometry_def mat_get_def baseline_def baseline_only_BGS_k_def)
qed

subsection \<open>C8: the snapshot of the old geometry solution is idempotent\<close>

text \<open>
  Claim C8. On a store of the declared shape and for a node \<open>iPoint < nPoint\<close>, two
  calls \<open>Set_OldSolution_Geometry(iPoint)\<close> in a row both succeed, and the second
  returns the store that the first returned: every component of \<open>Solution_Geometry_Old\<close>
  reads after the second call as after the first.
\<close>

theorem old_geometry_snapshot_idempotent:
  assumes "shape_ok s" and "iPoint < nPoint s"
  shows "\<exists>s1 s2. Set_OldSolution_Geometry s iPoint = Inr s1 \<and>
           Set_OldSolution_Geometry s1 iPoint = Inr s2 \<and> s2 = s1 \<and>
           (\<forall>k l. Get_OldSolution_Geometry s2 k l = Get_OldSolution_Geometry s1 k l)"
proof -
  let ?s1 = "s\<lparr>Solution_Geometry_Old :=
                (Solution_Geometry_Old s)[iPoint := Solution_Geometry s ! iPoint]\<rparr>"
  have c1: "Set_OldSolution_Geometry s iPoint = Inr ?s1"
    using assms by (rule Set_OldSolution_Geometry_in_shape)
  have "exec s (Call_Set_OldSolution_Geometry iPoint) = Inr ?s1"
    using c1 by simp
  then have sh1: "shape_ok ?s1"
    using assms(1) by (rule exec_shape_ok)
  have "Set_OldSolution_Geometry ?s1 iPoint =
          Inr (?s1\<lparr>Solution_Geometry_Old :=
                 (Solution_Geometry_Old ?s1)[iPoint := Solution_Geometry ?s1 ! iPoint]\<rparr>)"
    using sh1 assms(2) by (intro Set_OldSolution_Geometry_in_shape) simp_all
  then have c2: "Set_OldSolution_Geometry ?s1 iPoint = Inr ?s1"
    by simp
  show ?thesis
    using c1 c2 by blast
qed

theorem old_geometry_snapshot_idempotent_witness:
  "shape_ok two_nodes \<and> 0 < nPoint two_nodes \<and>
   Set_OldSolution_Geometry two_nodes 0 =
     Inr (two_nodes\<lparr>Solution_Geometry_Old := [[12, 22], [33, 43]]\<rparr>) \<and>
   Set_OldSolution_Geometry (two_nodes\<lparr>Solution_Geometry_Old := [[12, 22], [33, 43]]\<rparr>) 0 =
     Inr (two_nodes\<lparr>Solution_Geometry_Old := [[12, 22], [33, 43]]\<rparr>)"
  using old_geometry_snapshot_idempotent [OF shape_ok_two_nodes, of 0]
  by (simp add: shape_ok_two_nodes)
     (simp add: two_nodes_def Set_OldSolution_Geometry_def copy_row_loop_closed store_def)

subsection \<open>C9: the batched setters and the length of the vector\<close>

text \<open>
  Claim C9, as the code has it. The batched setters take a bare pointer and have no check
  of a length. On a store of the declared shape and for a node \<open>iPoint < nPoint\<close>: with
  a vector that has at least as many entries as the member has columns (\<open>nVar\<close> or
  \<open>nDim\<close>), the call succeeds and the row of the node becomes the first \<open>nVar\<close> (or
  \<open>nDim\<close>) entries of the vector, a complete row; further entries of the vector are
  never read. With a vector of fewer entries, the loop reads beyond the last entry of
  the vector.
\<close>

theorem batched_set_takes_leading_entries:
  assumes "shape_ok s" and "iPoint < nPoint s"
  shows
    "(nVar s \<le> length vals \<longrightarrow>
        (\<exists>s'. SetSolution_Direct s iPoint vals = Inr s' \<and>
              GetSolution_Direct s' iPoint = Inr (take (nVar s) vals))) \<and>
     (nDim s \<le> length coords \<longrightarrow>
        (\<exists>s'. SetGeometry_Direct s iPoint coords = Inr s' \<and>
              GetGeometry_Direct_row s' iPoint = Inr (take (nDim s) coords)) \<and>
        (\<exists>s'. SetSolution_Geometry_vec s iPoint coords = Inr s' \<and>
              mat_row (Solution_Geometry s') iPoint = Inr (take (nDim s) coords))) \<and>
     (length vals < nVar s \<longrightarrow> SetSolution_Direct s iPoint vals = Inl ReadPastEnd) \<and>
     (length coords < nDim s \<longrightarrow>
        SetGeometry_Direct s iPoint coords = Inl ReadPastEnd \<and>
        SetSolution_Geometry_vec s iPoint coords = Inl ReadPastEnd)"
proof -
  note sh = shape_ok_members [OF assms(1)]
  note n = assms(2)
  have a: "\<exists>s'. SetSolution_Direct s iPoint vals = Inr s' \<and>
                GetSolution_Direct s' iPoint = Inr (take (nVar s) vals)"
    if "nVar s \<le> length vals"
    using set_row_loop_in_shape [OF sh(2) n that] n has_shape_length [OF sh(2)]
    by (simp add: SetSolution_Direct_def GetSolution_Direct_def store_def mat_row_def)
  have b: "\<exists>s'. SetGeometry_Direct s iPoint coords = Inr s' \<and>
                GetGeometry_Direct_row s' iPoint = Inr (take (nDim s) coords)"
    if "nDim s \<le> length coords"
    using set_row_loop_in_shape [OF sh(10) n that] n has_shape_length [OF sh(10)]
    by (simp add: SetGeometry_Direct_def GetGeometry_Direct_row_def store_def mat_row_def)
  have c: "\<exists>s'. SetSolution_Geometry_vec s iPoint coords = Inr s' \<and>
                mat_row (Solution_Geometry s') iPoint = Inr (take (nDim s) coords)"
    if "nDim s \<le> length coords"
    using set_row_loop_in_shape [OF sh(8) n that] n has_shape_length [OF sh(8)]
    by (simp add: SetSolution_Geometry_vec_def store_def mat_row_def)
  have d: "SetSolution_Direct s iPoint vals = Inl ReadPastEnd" if "length vals < nVar s"
    using set_row_loop_short_in_shape [OF sh(2) n that]
    by (simp add: SetSolution_Direct_def store_def)
  have e: "SetGeometry_Direct s iPoint coords = Inl ReadPastEnd \<and>
           SetSolution_Geometry_vec s iPoint coords = Inl ReadPastEnd"
    if "length coords < nDim s"
    using set_row_loop_short_in_shape [OF sh(10) n that]
      set_row_loop_short_in_shape [OF sh(8) n that]
    by (simp add: SetGeometry_Direct_def SetSolution_Geometry_vec_def store_def)
  show ?thesis
    using a b c d e by blast
qed

theorem batched_set_takes_leading_entries_witness:
  "shape_ok two_nodes \<and> 1 < nPoint two_nodes \<and>
   nVar two_nodes \<le> length [7, 8, 9 :: real] \<and>
   SetSolution_Direct two_nodes 1 [7, 8, 9] =
     Inr (two_nodes\<lparr>Solution_Direct := [[1, 2, 3], [7, 8, 9]]\<rparr>) \<and>
   GetSolution_Direct (two_nodes\<lparr>Solution_Direct := [[1, 2, 3], [7, 8, 9]]\<rparr>) 1 =
     Inr [7, 8, 9] \<and>
   nDim two_nodes \<le> length [5, 6, 7 :: real] \<and>
   SetGeometry_Direct two_nodes 1 [5, 6, 7] =
     Inr (two_nodes\<lparr>Geometry_Direct := [[1, 2], [5, 6]]\<rparr>) \<and>
   GetGeometry_Direct_row (two_nodes\<lparr>Geometry_Direct := [[1, 2], [5, 6]]\<rparr>) 1 = Inr [5, 6] \<and>
   length [7, 8 :: real] < nVar two_nodes \<and>
   SetSolution_Direct two_nodes 1 [7, 8] = Inl ReadPastEnd \<and>
   length [5 :: real] < nDim two_nodes \<and>
   SetSolution_Geometry_vec two_nodes 1 [5] = Inl ReadPastEnd"
proof -
  have short: "set_row_loop [[1, 2, 3], [4, 5, 6]] 1 [7, 8 :: real] 0 3 = Inl ReadPastEnd"
    "set_row_loop [[12, 22], [32, 42]] 1 [5 :: real] 0 2 = Inl ReadPastEnd"
    by (rule set_row_loop_read_past_end; simp)+
  show ?thesis
    using
      batched_set_takes_leading_entries [OF shape_ok_two_nodes,
        where iPoint = 1 and vals = "[7, 8, 9]" and coords = "[5, 6, 7]"]
      batched_set_takes_leading_entries [OF shape_ok_two_nodes,
        where iPoint = 1 and vals = "[7, 8]" and coords = "[5]"]
    by (simp add: shape_ok_two_nodes)
       (simp add: two_nodes_def SetSolution_Direct_def GetSolution_Direct_def
          SetGeometry_Direct_def GetGeometry_Direct_row_def SetSolution_Geometry_vec_def
          set_row_loop_closed short mat_row_def store_def)
qed

text \<open>
  The claim as stated fails for a vector that is longer than the row: the store has three
  variables, the vector has four entries, and \<open>SetSolution_Direct\<close> succeeds and writes
  the first three.
\<close>

theorem longer_vector_is_accepted:
  "nVar two_nodes = 3 \<and> length [7, 8, 9, 10 :: real] = 4 \<and>
   SetSolution_Direct two_nodes 1 [7, 8, 9, 10] =
     Inr (two_nodes\<lparr>Solution_Direct := [[1, 2, 3], [7, 8, 9]]\<rparr>)"
  by (simp add: two_nodes_def SetSolution_Direct_def set_row_loop_closed store_def)

subsection \<open>C10: the BGS snapshot reads only the stored BGS solution\<close>

text \<open>
  Claim C10. Let \<open>s0\<close> be a store of the declared shape (the store as constructed), and
  let any sequence of calls run on it in which \<open>Set_BGSSolution\<close> is never called for
  node \<open>iPoint\<close>. Then \<open>Set_BGSSolution_k(iPoint)\<close> succeeds, and afterwards
  \<open>Get_BGSSolution_k(iPoint, iVar)\<close> returns, for every \<open>iVar < nVar\<close>, the value
  that \<open>Solution_BGS\<close> held in \<open>s0\<close>, whatever the calls wrote to the other members.
\<close>

theorem snapshot_BGS_reads_only_Solution_BGS:
  assumes "shape_ok s0" and "run s0 cs = Inr s"
    and "list_all (\<lambda>c. call_target c = F_Solution_BGS \<longrightarrow> call_node c \<noteq> iPoint) cs"
    and "iPoint < nPoint s0" and "iVar < nVar s0"
  shows "\<exists>s' v. Set_BGSSolution_k s iPoint = Inr s' \<and>
           Get_BGSSolution s0 iPoint iVar = Inr v \<and>
           Get_BGSSolution_k s' iPoint iVar = Inr v"
proof -
  have sh: "shape_ok s" using assms(2,1) by (rule run_shape_ok)
  have sz: "nPoint s = nPoint s0" "nVar s = nVar s0"
    using run_sizes [OF assms(2)] by simp_all
  have "list_all (\<lambda>c. F_Solution_BGS \<noteq> call_target c \<or> iPoint \<noteq> call_node c) cs"
    using assms(3) by (auto simp: list_all_iff)
  then have "member_of F_Solution_BGS s ! iPoint = member_of F_Solution_BGS s0 ! iPoint"
    using assms(2) by (intro run_keeps_row)
  then have row: "Solution_BGS s ! iPoint = Solution_BGS s0 ! iPoint" by simp
  let ?s' = "s\<lparr>Solution_BGS_k := (Solution_BGS_k s)[iPoint := Solution_BGS s ! iPoint]\<rparr>"
  have call: "Set_BGSSolution_k s iPoint = Inr ?s'"
    using sh assms(4) sz by (intro Set_BGSSolution_k_in_shape) simp_all
  have g0: "Get_BGSSolution s0 iPoint iVar = Inr (Solution_BGS s0 ! iPoint ! iVar)"
    using mat_get_in_shape [OF shape_ok_members(11) [OF assms(1)] assms(4,5)]
    by (simp add: Get_BGSSolution_def)
  have "Get_BGSSolution_k ?s' iPoint iVar = Inr (Solution_BGS s0 ! iPoint ! iVar)"
    using row assms(4,5) sz has_shape_length [OF shape_ok_members(12) [OF sh]]
      has_shape_row [OF shape_ok_members(11) [OF assms(1)] assms(4)]
    by (simp add: Get_BGSSolution_k_def mat_get_def)
  then show ?thesis using call g0 by blast
qed

theorem snapshot_BGS_reads_only_Solution_BGS_witness:
  "shape_ok two_nodes \<and>
   run two_nodes [Call_SetSolution_Direct 0 [7, 8, 9], Call_Set_BGSSolution 1 1 5,
                  Call_SetSolution_Geometry 0 0 2, Call_Set_BGSSolution_k 0,
                  Call_SetCross_Term_Derivative 0 1 99] =
     Inr (two_nodes\<lparr>Solution_Direct := [[7, 8, 9], [4, 5, 6]],
                    Cross_Term_Derivative := [[1, 99, 3], [4, 5, 6]],
                    Solution_Geometry := [[2, 22], [32, 42]],
                    Solution_BGS := [[14, 24, 34], [44, 5, 64]],
                    Solution_BGS_k := [[14, 24, 34], [45, 55, 65]]\<rparr>) \<and>
   list_all (\<lambda>c. call_target c = F_Solution_BGS \<longrightarrow> call_node c \<noteq> 0)
     [Call_SetSolution_Direct 0 [7, 8, 9], Call_Set_BGSSolution 1 1 5,
      Call_SetSolution_Geometry 0 0 2, Call_Set_BGSSolution_k 0,
      Call_SetCross_Term_Derivative 0 1 (99 :: real)] \<and>
   0 < nPoint two_nodes \<and> 1 < nVar two_nodes \<and>
   Get_BGSSolution two_nodes 0 1 = Inr 24 \<and>
   Set_BGSSolution_k
     (two_nodes\<lparr>Solution_Direct := [[7, 8, 9], [4, 5, 6]],
                Cross_Term_Derivative := [[1, 99, 3], [4, 5, 6]],
                Solution_Geometry := [[2, 22], [32, 42]],
                Solution_BGS := [[14, 24, 34], [44, 5, 64]],
                Solution_BGS_k := [[14, 24, 34], [45, 55, 65]]\<rparr>) 0 =
     Inr (two_nodes\<lparr>Solution_Direct := [[7, 8, 9], [4, 5, 6]],
                    Cross_Term_Derivative := [[1, 99, 3], [4, 5, 6]],
                    Solution_Geometry := [[2, 22], [32, 42]],
                    Solution_BGS := [[14, 24, 34], [44, 5, 64]],
                    Solution_BGS_k := [[14, 24, 34], [45, 55, 65]]\<rparr>) \<and>
   Get_BGSSolution_k
     (two_nodes\<lparr>Solution_Direct := [[7, 8, 9], [4, 5, 6]],
                Cross_Term_Derivative := [[1, 99, 3], [4, 5, 6]],
                Solution_Geometry := [[2, 22], [32, 42]],
                Solution_BGS := [[14, 24, 34], [44, 5, 64]],
                Solution_BGS_k := [[14, 24, 34], [45, 55, 65]]\<rparr>) 0 1 = Inr 24"
proof -
  have r: "run two_nodes [Call_SetSolution_Direct 0 [7, 8, 9], Call_Set_BGSSolution 1 1 5,
                  Call_SetSolution_Geometry 0 0 2, Call_Set_BGSSolution_k 0,
                  Call_SetCross_Term_Derivative 0 1 99] =
     Inr (two_nodes\<lparr>Solution_Direct := [[7, 8, 9], [4, 5, 6]],
                    Cross_Term_Derivative := [[1, 99, 3], [4, 5, 6]],
                    Solution_Geometry := [[2, 22], [32, 42]],
                    Solution_BGS := [[14, 24, 34], [44, 5, 64]],
                    Solution_BGS_k := [[14, 24, 34], [45, 55, 65]]\<rparr>)"
    by (simp add: two_nodes_def SetSolution_Direct_def Set_BGSSolution_def
          SetSolution_Geometry_def Set_BGSSolution_k_def SetCross_Term_Derivative_def
          set_row_loop_closed copy_row_loop_closed mat_set_def store_def)
  have l: "list_all (\<lambda>c. call_target c = F_Solution_BGS \<longrightarrow> call_node c \<noteq> 0)
     [Call_SetSolution_Direct 0 [7, 8, 9], Call_Set_BGSSolution 1 1 5,
      Call_SetSolution_Geometry 0 0 2, Call_Set_BGSSolution_k 0,
      Call_SetCross_Term_Derivative 0 1 (99 :: real)]"
    by simp
  show ?thesis
    using snapshot_BGS_reads_only_Solution_BGS [OF shape_ok_two_nodes r l, of 1] r l
    by (simp add: shape_ok_two_nodes)
       (simp add: two_nodes_def Set_BGSSolution_k_def Get_BGSSolution_k_def
          Get_BGSSolution_def copy_row_loop_closed mat_get_def store_def)
qed

end
